theory Spec2Isabelle
  imports Complex_Main "HOL-Library.Signed_Division"
begin

section \<open>Conventions of the embedding\<close>

text \<open>
  The TypeScript sources are embedded function by function. A JavaScript \<open>number\<close> is a
  rational (\<^typ>\<open>rat\<close>), without NaN or the infinities. In the risk assessment, whose
  score is rounded to an integer, every arithmetic operation is followed by the rounding of
  IEEE doubles (see below); elsewhere the arithmetic of the sources is read exactly. A
  \<open>bigint\<close> is an
  \<^typ>\<open>int\<close>. A millisecond clock value (\<open>Date.now()\<close>) is an \<^typ>\<open>int\<close> handed to
  each function as the argument \<open>now\<close>. Module-level variables are fields of an explicit
  state record that every function takes and returns. A call that leaves the process
  (HTTP fetch, chain RPC, transaction builder) is represented by its outcome, handed in as
  an argument: \<open>Inl msg\<close> for a thrown \<open>Error(msg)\<close>, \<open>Inr v\<close> for a returned value.

  Text that the sources assemble only for people (log messages, the \<open>trigger\<close>,
  \<open>action\<close> and \<open>reasoning\<close> of a decision, the \<open>reason\<close> of a strategy decision)
  embeds numbers through \<open>toFixed\<close>; no function of the sources reads it back, and the
  records below leave it out. A reply of the executor is kept as the literal words of the
  source's template without the interpolated values; a template of several lines is cut
  after its first line.
\<close>

subsection \<open>JavaScript helpers\<close>

definition Math_round :: "rat \<Rightarrow> int" where
  \<comment> \<open>\<open>Math.round\<close>: the nearest integer, a tie going up.\<close>
  "Math_round x = \<lfloor>x + 1 / 2\<rfloor>"

definition Math_floor :: "rat \<Rightarrow> int" where
  "Math_floor x = \<lfloor>x\<rfloor>"

definition or_num :: "rat option \<Rightarrow> rat \<Rightarrow> rat" where
  \<comment> \<open>\<open>(v as number) || d\<close>: \<open>undefined\<close> and \<open>0\<close> are falsy.\<close>
  "or_num v d = (case v of None \<Rightarrow> d | Some x \<Rightarrow> if x = 0 then d else x)"

definition or_str :: "string option \<Rightarrow> string \<Rightarrow> string" where
  \<comment> \<open>\<open>(v as string) || d\<close>: \<open>undefined\<close> and the empty string are falsy.\<close>
  "or_str v d = (case v of None \<Rightarrow> d | Some x \<Rightarrow> if x = [] then d else x)"

definition toLowerChar :: "char \<Rightarrow> char" where
  "toLowerChar c =
     (let n = of_char c :: nat in if 65 \<le> n \<and> n \<le> 90 then char_of (n + 32) else c)"

definition toLowerCase :: "string \<Rightarrow> string" where
  "toLowerCase s = map toLowerChar s"

subsection \<open>IEEE 754 double precision\<close>

text \<open>
  The risk assessment rounds its score, so there the rounding of every arithmetic
  operation matters. A finite double is the rational it denotes. \<open>toDouble\<close> rounds a
  rational to the nearest double, a tie going to the even significand: 53 significant
  bits, and below \<open>2 ^ -1022\<close> the fixed spacing \<open>2 ^ -1074\<close> of the subnormal numbers.
  An arithmetic operation of JavaScript is the exact operation followed by this rounding.
  The infinities, NaN and the sign of zero are not represented: a result beyond the
  largest double stays a (huge) rational.
\<close>

function bitLength :: "int \<Rightarrow> nat" where
  \<comment> \<open>The number of binary digits of a positive integer.\<close>
  "bitLength n = (if n \<le> 0 then 0 else Suc (bitLength (n div 2)))"
  by pat_completeness auto

termination
  by (relation "measure nat") auto

declare bitLength.simps [simp del]

definition pow2 :: "int \<Rightarrow> rat" where
  "pow2 e = (if 0 \<le> e then 2 ^ nat e else 1 / 2 ^ nat (- e))"

definition binaryExponent :: "rat \<Rightarrow> int" where
  \<comment> \<open>For \<open>x > 0\<close>, the \<open>e\<close> with \<open>2 ^ e \<le> x < 2 ^ (e + 1)\<close>: the bit lengths of numerator
      and denominator give it up to one, and a comparison decides.\<close>
  "binaryExponent x =
     (let (p, q) = quotient_of x;
          e0 = int (bitLength p) - int (bitLength q)
      in if pow2 e0 \<le> x then e0 else e0 - 1)"

definition roundHalfEven :: "rat \<Rightarrow> int" where
  "roundHalfEven x =
     (let m = \<lfloor>x\<rfloor>; r = x - of_int m
      in if r < 1 / 2 then m else if r > 1 / 2 then m + 1 else if even m then m else m + 1)"

definition toDouble :: "rat \<Rightarrow> rat" where
  "toDouble x =
     (if x = 0 then 0
      else (let quantum = pow2 (max (binaryExponent \<bar>x\<bar>) (- 1022) - 52)
            in sgn x * of_int (roundHalfEven (\<bar>x\<bar> / quantum)) * quantum))"

definition fadd :: "rat \<Rightarrow> rat \<Rightarrow> rat" where "fadd a b = toDouble (a + b)"
definition fsub :: "rat \<Rightarrow> rat \<Rightarrow> rat" where "fsub a b = toDouble (a - b)"
definition fmul :: "rat \<Rightarrow> rat \<Rightarrow> rat" where "fmul a b = toDouble (a * b)"
definition fdiv :: "rat \<Rightarrow> rat \<Rightarrow> rat" where "fdiv a b = toDouble (a / b)"

section \<open>Data model (lib/types)\<close>

datatype RiskLevel = Conservative | Moderate | Aggressive

datatype LogLevel = Log_info | Log_warn | Log_action | Log_error

datatype TreasuryDecisionType =
  Safety_deposit | Yield_withdraw | Rebalance | Risk_assessment | Auto_safety | Auto_redeploy

datatype DecisionChain = Chain_arc | Chain_sui | Chain_cross_chain

record TreasuryDecision =
  td_id :: "nat \<times> int"
  td_timestamp :: int
  td_type :: TreasuryDecisionType
  td_riskScore :: rat
  td_amount :: "rat option"
  td_txHash :: "string option"
  td_chain :: DecisionChain

record TreasuryState =
  arcVaultBalance :: rat
  suiYieldTotal :: rat
  lastDecision :: "TreasuryDecision option"
  lastDecisionTime :: int
  riskScore :: rat
  allocationArcPct :: rat
  allocationSuiPct :: rat

record PriceHistoryEntry =
  ph_price :: rat
  ph_timestamp :: int

record YieldPosition =
  yp_protocol :: string
  yp_chain :: string
  yp_asset :: string
  yp_amount :: rat
  yp_amountUsd :: rat
  yp_apy :: rat
  yp_earnedUsd :: rat
  yp_depositedAt :: int

record YieldOpportunity =
  yo_id :: string
  yo_protocol :: string
  yo_chain :: string
  yo_asset :: string
  yo_apy :: rat
  yo_tvl :: rat
  yo_pool :: string
  yo_netApy :: rat
  yo_bridgeCostPct :: rat
  yo_isNative :: bool
  yo_timestamp :: int

section \<open>Executor state\<close>

text \<open>
  The module variables of the executor (\<open>agentRunning\<close>, \<open>agentInterval\<close>,
  \<open>riskLevel\<close>, \<open>agentLogs\<close>, \<open>priceHistory\<close>, \<open>treasuryDecisions\<close>,
  \<open>treasuryState\<close>, \<open>decisionIdCounter\<close>) and the yield scanner's
  \<open>currentPositions\<close>, which the executor changes through \<open>setPosition\<close>.
  \<open>agentInterval\<close> is \<open>True\<close> while a timer handle is stored. \<open>inFlight\<close> is not a
  variable of the source: it counts the calls of \<open>runOptimizationCycle\<close> that have started
  and whose promise has not settled yet.
\<close>

record executor =
  agentRunning :: bool
  agentInterval :: bool
  riskLevel :: RiskLevel
  agentLogs :: "LogLevel list"
  priceHistory :: "PriceHistoryEntry list"
  treasuryDecisions :: "TreasuryDecision list"
  treasuryState :: TreasuryState
  decisionIdCounter :: nat
  currentPositions :: "YieldPosition list"
  inFlight :: nat

definition initial_treasuryState :: TreasuryState where
  "initial_treasuryState =
     \<lparr>arcVaultBalance = 0, suiYieldTotal = 0, lastDecision = None, lastDecisionTime = 0,
      riskScore = 0, allocationArcPct = 0, allocationSuiPct = 100\<rparr>"

definition initial_executor :: executor where
  "initial_executor =
     \<lparr>agentRunning = False, agentInterval = False, riskLevel = Moderate, agentLogs = [],
      priceHistory = [], treasuryDecisions = [], treasuryState = initial_treasuryState,
      decisionIdCounter = 0, currentPositions = [], inFlight = 0\<rparr>"

definition shift :: "'a list \<Rightarrow> 'a list" where
  \<comment> \<open>\<open>Array.prototype.shift\<close>: drops the first element; nothing to drop on \<open>[]\<close>.\<close>
  "shift xs = (case xs of [] \<Rightarrow> [] | _ # ys \<Rightarrow> ys)"

definition log :: "LogLevel \<Rightarrow> executor \<Rightarrow> executor" where
  "log level s =
     (let logs = agentLogs s @ [level]
      in s\<lparr>agentLogs := (if length logs > 100 then shift logs else logs)\<rparr>)"

definition recordTreasuryDecision ::
  "int \<Rightarrow> TreasuryDecisionType \<Rightarrow> rat \<Rightarrow> rat option \<Rightarrow> string option \<Rightarrow> DecisionChain
    \<Rightarrow> executor \<Rightarrow> TreasuryDecision \<times> executor" where
  "recordTreasuryDecision now ty score amount txHash chain s =
     (let counter = decisionIdCounter s + 1;
          decision = \<lparr>td_id = (counter, now), td_timestamp = now, td_type = ty,
                      td_riskScore = score, td_amount = amount, td_txHash = txHash,
                      td_chain = chain\<rparr>;
          pushed = treasuryDecisions s @ [decision];
          kept = (if length pushed > 50 then shift pushed else pushed)
      in (decision,
          s\<lparr>decisionIdCounter := counter,
            treasuryDecisions := kept,
            treasuryState := (treasuryState s)\<lparr>lastDecision := Some decision,
                                               lastDecisionTime := now,
                                               riskScore := score\<rparr>\<rparr>))"

text \<open>One call of \<open>recordTreasuryDecision\<close>, with the arguments the caller chooses.\<close>

record record_call =
  rc_now :: int
  rc_type :: TreasuryDecisionType
  rc_riskScore :: rat
  rc_amount :: "rat option"
  rc_txHash :: "string option"
  rc_chain :: DecisionChain

definition record_one :: "record_call \<Rightarrow> executor \<Rightarrow> executor" where
  "record_one c s =
     snd (recordTreasuryDecision (rc_now c) (rc_type c) (rc_riskScore c) (rc_amount c)
            (rc_txHash c) (rc_chain c) s)"

fun record_all :: "record_call list \<Rightarrow> executor \<Rightarrow> executor" where
  "record_all [] s = s"
| "record_all (c # cs) s = record_all cs (record_one c s)"

section \<open>Strategy engine (agent/strategy)\<close>

datatype AgentAction =
  REBALANCE_SWAP | CROSS_CHAIN_BRIDGE | SAFETY_MOVE | DEPOSIT_BACK | MONITOR | NO_ACTION
  | YIELD_REBALANCE

datatype DecisionStatus = St_pending | St_executing | St_completed | St_failed

record AgentDecision =
  ad_id :: "nat \<times> int"
  ad_timestamp :: int
  ad_action :: AgentAction
  ad_amountIn :: int
  ad_amountOut :: int
  ad_chain :: string
  ad_txHash :: "string option"
  ad_status :: DecisionStatus

record Holding =
  h_balance :: int
  h_valueUsd :: rat
  h_percentage :: rat

record PortfolioState =
  ps_sui :: Holding
  ps_arc :: Holding
  ps_totalValueUsd :: rat

record PriceData =
  pd_asset :: string
  pd_price :: rat
  pd_timestamp :: int
  pd_source :: string

text \<open>The constants of \<open>AGENT_CONFIG\<close> that the strategy reads.\<close>

definition LOOP_INTERVAL :: int where "LOOP_INTERVAL = 60000"
definition TARGET_SUI_PCT :: rat where "TARGET_SUI_PCT = 50"
definition REBALANCE_THRESHOLD :: rat where "REBALANCE_THRESHOLD = 5"
definition MIN_REBALANCE_AMOUNT :: int where "MIN_REBALANCE_AMOUNT = 100000000"
definition YIELD_REBALANCE_THRESHOLD :: rat where "YIELD_REBALANCE_THRESHOLD = 2"

definition arrow :: string where
  \<comment> \<open>The UTF-8 bytes of the rightwards arrow U+2192 in the chain tags.\<close>
  "arrow = [char_of (226 :: nat), char_of (134 :: nat), char_of (146 :: nat)]"

definition makeDecision ::
  "int \<Rightarrow> nat \<Rightarrow> AgentAction \<Rightarrow> int \<Rightarrow> string \<Rightarrow> AgentDecision \<times> nat" where
  \<comment> \<open>\<open>decisionCounter\<close> is the module variable; the new value is returned.\<close>
  "makeDecision now decisionCounter act amountIn chain =
     (\<lparr>ad_id = (decisionCounter + 1, now), ad_timestamp = now, ad_action = act,
       ad_amountIn = amountIn, ad_amountOut = 0, ad_chain = chain, ad_txHash = None,
       ad_status = St_pending\<rparr>,
      decisionCounter + 1)"

definition lastYieldRebalance :: "AgentDecision list \<Rightarrow> AgentDecision option" where
  \<comment> \<open>\<open>previousDecisions.filter(d => d.action === "YIELD_REBALANCE").slice(-1)[0]\<close>\<close>
  "lastYieldRebalance previousDecisions =
     (case rev (filter (\<lambda>d. ad_action d = YIELD_REBALANCE) previousDecisions) of
        [] \<Rightarrow> None | d # _ \<Rightarrow> Some d)"

definition yieldRebalanceCheck ::
  "int \<Rightarrow> AgentDecision list \<Rightarrow> YieldOpportunity list option \<Rightarrow> string option" where
  \<comment> \<open>The block "Yield-based rebalancing": the chain tag of the decision it returns,
      or \<open>None\<close> when control falls through to the drift check.\<close>
  "yieldRebalanceCheck now previousDecisions yieldOpportunities =
     (case yieldOpportunities of
        None \<Rightarrow> None
      | Some [] \<Rightarrow> None
      | Some (bestYield # _) \<Rightarrow>
          (let currentYield = lastYieldRebalance previousDecisions
           in if yo_netApy bestYield > YIELD_REBALANCE_THRESHOLD
              then (if (case currentYield of
                          None \<Rightarrow> True
                        | Some c \<Rightarrow> now - ad_timestamp c > LOOP_INTERVAL * 5)
                    then Some (if yo_isNative bestYield then ''sui''
                               else ''sui'' @ arrow @ toLowerCase (yo_chain bestYield))
                    else None)
              else None))"

definition driftCheck :: "PortfolioState \<Rightarrow> PriceData option \<Rightarrow> (int \<times> string) option" where
  \<comment> \<open>The block "Portfolio drift check": amount and chain tag of the bridge decision it
      returns, or \<open>None\<close> when control falls through to "No action needed".\<close>
  "driftCheck portfolio suiPrice =
     (let currentSuiPct = h_percentage (ps_sui portfolio);
          targetSuiPct = TARGET_SUI_PCT;
          drift = \<bar>currentSuiPct - targetSuiPct\<bar>
      in if drift > REBALANCE_THRESHOLD
         then (if currentSuiPct > targetSuiPct
               then (let excessPct = currentSuiPct - targetSuiPct;
                         excessValue = (h_valueUsd (ps_sui portfolio) * excessPct) / 100;
                         suiPriceUsd = or_num (map_option pd_price suiPrice) 1;
                         amountSui = Math_floor ((excessValue / suiPriceUsd) * 1000000000)
                     in if amountSui > MIN_REBALANCE_AMOUNT
                        then Some (amountSui, ''sui'' @ arrow @ ''arc'')
                        else None)
               else (let deficitPct = targetSuiPct - currentSuiPct;
                         deficitValue = (ps_totalValueUsd portfolio * deficitPct) / 100
                     in Some (Math_floor (deficitValue * 1000000), ''arc'' @ arrow @ ''sui'')))
         else None)"

definition evaluateStrategy ::
  "int \<Rightarrow> nat \<Rightarrow> PortfolioState \<Rightarrow> PriceData list \<Rightarrow> AgentDecision list
    \<Rightarrow> YieldOpportunity list option \<Rightarrow> AgentDecision \<times> nat" where
  \<comment> \<open>\<open>portfolio.sui.balance / 2n\<close> is bigint division, which truncates towards zero.\<close>
  "evaluateStrategy now decisionCounter portfolio prices previousDecisions yieldOpportunities =
     (let suiPrice = find (\<lambda>p. pd_asset p = ''SUI'') prices
      in if (case suiPrice of None \<Rightarrow> False | Some p \<Rightarrow> pd_price p < 1 / 2)
         then makeDecision now decisionCounter SAFETY_MOVE
                (h_balance (ps_sui portfolio) sdiv 2) (''sui'' @ arrow @ ''arc'')
         else (case yieldRebalanceCheck now previousDecisions yieldOpportunities of
                 Some chain \<Rightarrow> makeDecision now decisionCounter YIELD_REBALANCE 0 chain
               | None \<Rightarrow>
                   (case driftCheck portfolio suiPrice of
                      Some (amount, chain) \<Rightarrow>
                        makeDecision now decisionCounter CROSS_CHAIN_BRIDGE amount chain
                    | None \<Rightarrow> makeDecision now decisionCounter NO_ACTION 0 ''monitor'')))"

section \<open>Yield scanner (agent/yield-scanner)\<close>

record DefiLlamaPool =
  lp_pool :: string
  lp_chain :: string
  lp_project :: string
  lp_symbol :: string
  lp_tvlUsd :: rat
  lp_apy :: rat
  lp_apyBase :: "rat option"
  lp_apyReward :: "rat option"
  lp_stablecoin :: bool

record NaviPoolData =
  np_supplyApy :: rat
  np_borrowApy :: rat
  np_tvlUsd :: rat
  np_asset :: string

datatype Direction = Long | Short

record FundingYield =
  fy_symbol :: string
  fy_direction :: Direction
  fy_annualizedYield :: rat
  fy_fundingRate :: rat

record FundingRate =
  fr_symbol :: string
  fr_fundingRate :: rat
  fr_annualizedRate :: rat
  fr_nextFundingTime :: int
  fr_timestamp :: int

record YieldProtocol =
  ypr_project :: string
  ypr_chain :: string
  ypr_displayName :: string

definition YIELD_PROTOCOLS :: "YieldProtocol list" where
  \<comment> \<open>\<open>Object.values(YIELD_PROTOCOLS)\<close>, in the order of the object literal.\<close>
  "YIELD_PROTOCOLS =
     [\<lparr>ypr_project = ''scallop-lend'', ypr_chain = ''Sui'', ypr_displayName = ''Scallop''\<rparr>,
      \<lparr>ypr_project = ''navi-lending'', ypr_chain = ''Sui'', ypr_displayName = ''NAVI''\<rparr>,
      \<lparr>ypr_project = ''aave-v3'', ypr_chain = ''Arbitrum'', ypr_displayName = ''Aave V3''\<rparr>,
      \<lparr>ypr_project = ''compound-v3'', ypr_chain = ''Optimism'',
        ypr_displayName = ''Compound V3''\<rparr>]"

definition BRIDGE_FEES :: "(string \<times> rat) list" where
  "BRIDGE_FEES =
     [(''SUI_TO_ARBITRUM'', 3 / 10), (''SUI_TO_OPTIMISM'', 3 / 10), (''SUI_TO_ARC'', 1 / 10),
      (''ARBITRUM_TO_SUI'', 3 / 10), (''OPTIMISM_TO_SUI'', 3 / 10), (''ARC_TO_SUI'', 1 / 10)]"

record RiskProfile =
  rebalanceThresholdApy :: rat
  maxAllocationPct :: rat
  safetyThresholdPriceDrop :: rat
  allowCrossChain :: bool

fun RISK_PROFILES :: "RiskLevel \<Rightarrow> RiskProfile" where
  "RISK_PROFILES Conservative =
     \<lparr>rebalanceThresholdApy = 3, maxAllocationPct = 30, safetyThresholdPriceDrop = 5,
      allowCrossChain = False\<rparr>"
| "RISK_PROFILES Moderate =
     \<lparr>rebalanceThresholdApy = 2, maxAllocationPct = 50, safetyThresholdPriceDrop = 10,
      allowCrossChain = True\<rparr>"
| "RISK_PROFILES Aggressive =
     \<lparr>rebalanceThresholdApy = 1, maxAllocationPct = 70, safetyThresholdPriceDrop = 15,
      allowCrossChain = True\<rparr>"

definition toUpperChar :: "char \<Rightarrow> char" where
  "toUpperChar c =
     (let n = of_char c :: nat in if 97 \<le> n \<and> n \<le> 122 then char_of (n - 32) else c)"

definition toUpperCase :: "string \<Rightarrow> string" where
  "toUpperCase s = map toUpperChar s"

definition getBridgeCost :: "string \<Rightarrow> string \<Rightarrow> rat" where
  "getBridgeCost fromChain toChain =
     (case map_of BRIDGE_FEES (toUpperCase fromChain @ ''_TO_'' @ toUpperCase toChain) of
        Some fee \<Rightarrow> fee | None \<Rightarrow> 1 / 2)"

definition filterRelevantPools :: "DefiLlamaPool list \<Rightarrow> DefiLlamaPool list" where
  "filterRelevantPools pools =
     filter (\<lambda>pool. list_ex (\<lambda>p. lp_project pool = ypr_project p \<and> lp_chain pool = ypr_chain p
                                \<and> lp_apy pool > 0 \<and> lp_tvlUsd pool > 100000)
                       YIELD_PROTOCOLS) pools"

definition poolToOpportunity :: "int \<Rightarrow> DefiLlamaPool \<Rightarrow> YieldOpportunity" where
  "poolToOpportunity now pool =
     (let isNative = (lp_chain pool = ''Sui'');
          bridgeCost = (if isNative then 0 else getBridgeCost ''SUI'' (lp_chain pool));
          netApy = lp_apy pool - bridgeCost;
          protocol = find (\<lambda>p. ypr_project p = lp_project pool \<and> ypr_chain p = lp_chain pool)
                       YIELD_PROTOCOLS
      in \<lparr>yo_id = lp_pool pool,
          yo_protocol = or_str (map_option ypr_displayName protocol) (lp_project pool),
          yo_chain = lp_chain pool, yo_asset = lp_symbol pool, yo_apy = lp_apy pool,
          yo_tvl = lp_tvlUsd pool, yo_pool = lp_pool pool, yo_netApy = netApy,
          yo_bridgeCostPct = bridgeCost, yo_isNative = isNative, yo_timestamp = now\<rparr>)"

fun update_first :: "('a \<Rightarrow> bool) \<Rightarrow> ('a \<Rightarrow> 'a) \<Rightarrow> 'a list \<Rightarrow> 'a list" where
  \<comment> \<open>Assignment to the fields of (or the slot of) the first element that \<open>find\<close> or
      \<open>findIndex\<close> returns.\<close>
  "update_first P f [] = []"
| "update_first P f (x # xs) = (if P x then f x # xs else x # update_first P f xs)"

definition naviOverlayStep ::
  "int \<Rightarrow> YieldOpportunity list \<Rightarrow> NaviPoolData \<Rightarrow> YieldOpportunity list" where
  \<comment> \<open>One iteration of the loop "Overlay NAVI direct API data".\<close>
  "naviOverlayStep now opportunities naviPool =
     (if np_supplyApy naviPool \<le> 0 then opportunities
      else (let isExisting = (\<lambda>opp. yo_protocol opp = ''NAVI'' \<and> yo_asset opp = np_asset naviPool)
            in case find isExisting opportunities of
                 Some _ \<Rightarrow>
                   update_first isExisting
                     (\<lambda>existing. existing\<lparr>yo_apy := np_supplyApy naviPool,
                                            yo_netApy := np_supplyApy naviPool,
                                            yo_tvl := np_tvlUsd naviPool\<rparr>)
                     opportunities
               | None \<Rightarrow>
                   (if np_asset naviPool \<in> set [''SUI'', ''USDC'', ''USDT'']
                    then opportunities @
                      [\<lparr>yo_id = ''navi-'' @ toLowerCase (np_asset naviPool) @ ''-direct'',
                        yo_protocol = ''NAVI'', yo_chain = ''Sui'', yo_asset = np_asset naviPool,
                        yo_apy = np_supplyApy naviPool, yo_tvl = np_tvlUsd naviPool,
                        yo_pool = ''navi-'' @ toLowerCase (np_asset naviPool),
                        yo_netApy = np_supplyApy naviPool, yo_bridgeCostPct = 0,
                        yo_isNative = True, yo_timestamp = now\<rparr>]
                    else opportunities)))"

definition bluefinOpportunity :: "int \<Rightarrow> FundingYield \<Rightarrow> YieldOpportunity" where
  \<comment> \<open>The object pushed by the loop "Add Bluefin funding rate yields".\<close>
  "bluefinOpportunity now bf =
     \<lparr>yo_id = ''bluefin-'' @ toLowerCase (fy_symbol bf) @ ''-funding'',
      yo_protocol = ''Bluefin'', yo_chain = ''Sui'',
      yo_asset = fy_symbol bf @ '' ('' @ (case fy_direction bf of Long \<Rightarrow> ''long''
                                          | Short \<Rightarrow> ''short'') @ '')'',
      yo_apy = fy_annualizedYield bf, yo_tvl = 0,
      yo_pool = ''bluefin-'' @ toLowerCase (fy_symbol bf),
      yo_netApy = fy_annualizedYield bf, yo_bridgeCostPct = 0, yo_isNative = True,
      yo_timestamp = now\<rparr>"

definition scanYields ::
  "int \<Rightarrow> string + DefiLlamaPool list \<Rightarrow> NaviPoolData list \<Rightarrow> string + FundingYield list
    \<Rightarrow> string + YieldOpportunity list" where
  \<comment> \<open>The arguments are the outcomes of \<open>fetchDefiLlamaPools()\<close>, \<open>fetchNaviPoolData()\<close>
      and \<open>getFundingRateYields()\<close>. A rejection of the first rejects \<open>Promise.all\<close>; the
      third has \<open>.catch(() => [])\<close>. The comparator \<open>b.netApy - a.netApy\<close> sorts
      descending by \<open>netApy\<close>, and \<open>Array.prototype.sort\<close> is stable.\<close>
  "scanYields now llama naviPools bluefin =
     (case llama of
        Inl err \<Rightarrow> Inl err
      | Inr llamaPools \<Rightarrow>
          (let bluefinYields = (case bluefin of Inl _ \<Rightarrow> [] | Inr ys \<Rightarrow> ys);
               relevant = filterRelevantPools llamaPools;
               opportunities = map (poolToOpportunity now) relevant;
               overlaid = foldl (naviOverlayStep now) opportunities naviPools;
               withFunding = overlaid @ map (bluefinOpportunity now) bluefinYields
           in Inr (sort_key (\<lambda>opp. - yo_netApy opp) withFunding)))"

record YieldScanResult =
  ysr_opportunities :: "YieldOpportunity list"
  ysr_bestOpportunity :: "YieldOpportunity option"
  ysr_currentAllocation :: "YieldPosition list"
  ysr_timestamp :: int

definition findBestYield ::
  "int \<Rightarrow> RiskLevel \<Rightarrow> YieldPosition list \<Rightarrow> YieldOpportunity list \<Rightarrow> YieldScanResult" where
  \<comment> \<open>The part of \<open>findBestYield\<close> after \<open>await scanYields()\<close>; \<open>opportunities\<close> is the
      list the scan returned, \<open>positions\<close> the module variable \<open>currentPositions\<close>.\<close>
  "findBestYield now level positions opportunities =
     (let profile = RISK_PROFILES level;
          eligible = filter (\<lambda>opp. \<not> (\<not> allowCrossChain profile \<and> \<not> yo_isNative opp)
                                   \<and> \<not> yo_tvl opp < 1000000) opportunities
      in \<lparr>ysr_opportunities = eligible,
          ysr_bestOpportunity = (case eligible of [] \<Rightarrow> None | best # _ \<Rightarrow> Some best),
          ysr_currentAllocation = positions, ysr_timestamp = now\<rparr>)"

definition setPosition :: "YieldPosition \<Rightarrow> YieldPosition list \<Rightarrow> YieldPosition list" where
  "setPosition position positions =
     (let same = (\<lambda>p. yp_protocol p = yp_protocol position \<and> yp_chain p = yp_chain position)
      in case find same positions of
           Some _ \<Rightarrow> update_first same (\<lambda>_. position) positions
         | None \<Rightarrow> positions @ [position])"

section \<open>Signal fetches and their caches\<close>

text \<open>
  Each fetch function reads and writes two module variables, the cached value and the
  time of the last successful fetch; they are the fields of a cache record here. The
  argument \<open>fetched\<close> is what the HTTP request and the decoding of its response come to
  when the function gets that far: \<open>Inl msg\<close> when \<open>fetch\<close>, the check of \<open>res.ok\<close> or the
  decoding throws, \<open>Inr v\<close> for the decoded value. The result is \<open>Inl msg\<close> when the
  function throws to its caller.
\<close>

record price_cache =
  cachedPrices :: "PriceData list"
  lastPriceFetch :: int

record CoinGeckoData =
  cg_sui :: "rat option"
  cg_ethereum :: "rat option"
  cg_bitcoin :: "rat option"

definition PRICE_CACHE_TTL :: int where "PRICE_CACHE_TTL = 30000"

definition nullish :: "rat option \<Rightarrow> rat \<Rightarrow> rat" where
  \<comment> \<open>\<open>v ?? d\<close>\<close>
  "nullish v d = (case v of None \<Rightarrow> d | Some x \<Rightarrow> x)"

definition priceEntry :: "string \<Rightarrow> rat \<Rightarrow> int \<Rightarrow> string \<Rightarrow> PriceData" where
  "priceEntry a p t src = \<lparr>pd_asset = a, pd_price = p, pd_timestamp = t, pd_source = src\<rparr>"

definition unavailablePrices :: "int \<Rightarrow> PriceData list" where
  "unavailablePrices now =
     [priceEntry ''SUI'' 0 now ''unavailable'', priceEntry ''ETH'' 0 now ''unavailable'',
      priceEntry ''BTC'' 0 now ''unavailable'']"

definition fetchPrices ::
  "int \<Rightarrow> string + CoinGeckoData \<Rightarrow> price_cache \<Rightarrow> (string + PriceData list) \<times> price_cache" where
  "fetchPrices now fetched c =
     (if cachedPrices c \<noteq> [] \<and> now - lastPriceFetch c < PRICE_CACHE_TTL
      then (Inr (cachedPrices c), c)
      else (case fetched of
              Inr data \<Rightarrow>
                (let fresh = [priceEntry ''SUI'' (nullish (cg_sui data) 0) now ''coingecko'',
                              priceEntry ''ETH'' (nullish (cg_ethereum data) 0) now ''coingecko'',
                              priceEntry ''BTC'' (nullish (cg_bitcoin data) 0) now ''coingecko'']
                 in (Inr fresh, c\<lparr>cachedPrices := fresh, lastPriceFetch := now\<rparr>))
            | Inl _ \<Rightarrow>
                (if cachedPrices c \<noteq> [] then (Inr (cachedPrices c), c)
                 else (Inr (unavailablePrices now), c))))"

record llama_cache =
  cachedPools :: "DefiLlamaPool list"
  lastFetchTime :: int

definition CACHE_TTL :: int where "CACHE_TTL = 60000"

definition fetchDefiLlamaPools ::
  "int \<Rightarrow> string + DefiLlamaPool list option \<Rightarrow> llama_cache
    \<Rightarrow> (string + DefiLlamaPool list) \<times> llama_cache" where
  \<comment> \<open>The function has no \<open>try\<close>. \<open>Inr None\<close> is a response without \<open>data\<close>.\<close>
  "fetchDefiLlamaPools now fetched c =
     (if cachedPools c \<noteq> [] \<and> now - lastFetchTime c < CACHE_TTL
      then (Inr (cachedPools c), c)
      else (case fetched of
              Inl err \<Rightarrow> (Inl err, c)
            | Inr json_data \<Rightarrow>
                (let pools = (case json_data of None \<Rightarrow> [] | Some ps \<Rightarrow> ps)
                 in (Inr pools, c\<lparr>cachedPools := pools, lastFetchTime := now\<rparr>))))"

record navi_cache =
  cachedNaviData :: "NaviPoolData list"
  lastNaviFetch :: int

definition NAVI_CACHE_TTL :: int where "NAVI_CACHE_TTL = 120000"

definition fetchNaviPoolData ::
  "int \<Rightarrow> string + NaviPoolData list \<Rightarrow> navi_cache
    \<Rightarrow> (string + NaviPoolData list) \<times> navi_cache" where
  \<comment> \<open>\<open>Inr pools\<close> is the list the loop over the response's entries builds.\<close>
  "fetchNaviPoolData now fetched c =
     (if cachedNaviData c \<noteq> [] \<and> now - lastNaviFetch c < NAVI_CACHE_TTL
      then (Inr (cachedNaviData c), c)
      else (case fetched of
              Inr pools \<Rightarrow> (Inr pools, c\<lparr>cachedNaviData := pools, lastNaviFetch := now\<rparr>)
            | Inl _ \<Rightarrow> (Inr (cachedNaviData c), c)))"

record BluefinMarketData =
  md_symbol :: string
  md_lastPrice :: rat
  md_indexPrice :: rat
  md_markPrice :: rat
  md_bestBid :: rat
  md_bestAsk :: rat
  md_volume24h :: rat
  md_openInterest :: rat
  md_fundingRate :: rat
  md_nextFundingTime :: int
  md_priceChange24h :: rat
  md_priceChangePercent24h :: rat

record bluefin_cache =
  cachedMarketData :: "BluefinMarketData list"
  lastMarketFetch :: int
  cachedFundingRates :: "FundingRate list"
  lastFundingFetch :: int

definition MARKET_CACHE_TTL :: int where "MARKET_CACHE_TTL = 15000"
definition FUNDING_CACHE_TTL :: int where "FUNDING_CACHE_TTL = 60000"

definition fetchMarketData ::
  "int \<Rightarrow> string + BluefinMarketData list \<Rightarrow> bluefin_cache
    \<Rightarrow> (string + BluefinMarketData list) \<times> bluefin_cache" where
  \<comment> \<open>\<open>Inr markets\<close> is the list built from the entries of the response whose symbol is
      one of \<open>BLUEFIN_MARKETS\<close>.\<close>
  "fetchMarketData now fetched c =
     (if cachedMarketData c \<noteq> [] \<and> now - lastMarketFetch c < MARKET_CACHE_TTL
      then (Inr (cachedMarketData c), c)
      else (case fetched of
              Inr markets \<Rightarrow> (Inr markets, c\<lparr>cachedMarketData := markets, lastMarketFetch := now\<rparr>)
            | Inl _ \<Rightarrow> (Inr (cachedMarketData c), c)))"

definition fundingRateOf :: "int \<Rightarrow> BluefinMarketData \<Rightarrow> FundingRate" where
  "fundingRateOf now m =
     \<lparr>fr_symbol = md_symbol m, fr_fundingRate = md_fundingRate m,
      fr_annualizedRate = \<bar>md_fundingRate m\<bar> * 3 * 365 * 100,
      fr_nextFundingTime = md_nextFundingTime m, fr_timestamp = now\<rparr>"

definition fetchFundingRates ::
  "int \<Rightarrow> string + BluefinMarketData list \<Rightarrow> bluefin_cache
    \<Rightarrow> (string + FundingRate list) \<times> bluefin_cache" where
  "fetchFundingRates now fetched c =
     (if cachedFundingRates c \<noteq> [] \<and> now - lastFundingFetch c < FUNDING_CACHE_TTL
      then (Inr (cachedFundingRates c), c)
      else (case fetchMarketData now fetched c of
              (Inr markets, c1) \<Rightarrow>
                (let rates = map (fundingRateOf now) markets
                 in (Inr rates, c1\<lparr>cachedFundingRates := rates, lastFundingFetch := now\<rparr>))
            | (Inl _, c1) \<Rightarrow> (Inr (cachedFundingRates c1), c1)))"

definition getFundingRateYields :: "string + FundingRate list \<Rightarrow> string + FundingYield list" where
  \<comment> \<open>The argument is the outcome of \<open>await fetchFundingRates()\<close>.\<close>
  "getFundingRateYields fetched =
     (case fetched of
        Inl err \<Rightarrow> Inl err
      | Inr rates \<Rightarrow>
          Inr (sort_key (\<lambda>y. - fy_annualizedYield y)
                 (map (\<lambda>r. \<lparr>fy_symbol = fr_symbol r,
                             fy_direction = (if fr_fundingRate r > 0 then Short else Long),
                             fy_annualizedYield = fr_annualizedRate r,
                             fy_fundingRate = fr_fundingRate r\<rparr>)
                    (filter (\<lambda>r. fr_annualizedRate r > 5) rates))))"

definition stale_llama_cache :: llama_cache where
  \<comment> \<open>One pool, fetched successfully at time 100000.\<close>
  "stale_llama_cache =
     \<lparr>cachedPools = [\<lparr>lp_pool = ''navi-sui'', lp_chain = ''Sui'', lp_project = ''navi-lending'',
                       lp_symbol = ''SUI'', lp_tvlUsd = 5000000, lp_apy = 4, lp_apyBase = Some 4,
                       lp_apyReward = None, lp_stablecoin = False\<rparr>],
      lastFetchTime = 100000\<rparr>"

section \<open>Protocol router (agent/protocols)\<close>

datatype ProtocolName = Scallop | NAVI | Aave_V3 | Compound_V3 | Arc | Bluefin

fun protocolText :: "ProtocolName \<Rightarrow> string" where
  "protocolText Scallop = ''Scallop''"
| "protocolText NAVI = ''NAVI''"
| "protocolText Aave_V3 = ''Aave V3''"
| "protocolText Compound_V3 = ''Compound V3''"
| "protocolText Arc = ''Arc''"
| "protocolText Bluefin = ''Bluefin''"

definition isSpace :: "char \<Rightarrow> bool" where
  \<comment> \<open>The ASCII white space that \<open>String.prototype.trim\<close> removes.\<close>
  "isSpace c = (of_char c \<in> set [9, 10, 11, 12, 13, 32 :: nat])"

definition trim :: "string \<Rightarrow> string" where
  "trim s = rev (dropWhile isSpace (rev (dropWhile isSpace s)))"

definition resolveProtocolName :: "string \<Rightarrow> ProtocolName option" where
  "resolveProtocolName input =
     map_of
       [(''scallop'', Scallop), (''scallop-lend'', Scallop), (''navi'', NAVI),
        (''navi-lending'', NAVI), (''navi protocol'', NAVI), (''aave'', Aave_V3),
        (''aave v3'', Aave_V3), (''aave-v3'', Aave_V3), (''compound'', Compound_V3),
        (''compound v3'', Compound_V3), (''compound-v3'', Compound_V3), (''arc'', Arc),
        (''circle'', Arc), (''bluefin'', Bluefin), (''bluefin-perp'', Bluefin)]
       (trim (toLowerCase input))"

record ProtocolAction =
  pa_protocol :: string
  pa_action :: string
  pa_isSimulated :: bool

record VaultResult =
  vr_txHash :: string
  vr_success :: bool

section \<open>Optimization cycle (agent/executor)\<close>

text \<open>The constants of \<open>TREASURY_CONFIG\<close>.\<close>

definition SAFETY_THRESHOLD_PCT :: rat where "SAFETY_THRESHOLD_PCT = 8"
definition RECOVERY_THRESHOLD_PCT :: rat where "RECOVERY_THRESHOLD_PCT = 5"
definition MIN_YIELD_FOR_DEPLOYMENT :: rat where "MIN_YIELD_FOR_DEPLOYMENT = 2"
definition MAX_PRICE_HISTORY :: nat where "MAX_PRICE_HISTORY = 20"
definition SAFETY_MOVE_RATIO :: rat where "SAFETY_MOVE_RATIO = 1 / 2"
definition HIGH_RISK_THRESHOLD :: int where "HIGH_RISK_THRESHOLD = 65"
definition MEDIUM_RISK_THRESHOLD :: int where "MEDIUM_RISK_THRESHOLD = 35"

text \<open>
  What one run of \<open>runOptimizationCycle\<close> receives from outside: the clock, the price
  \<open>getSuiPrice()\<close> resolves to (it never rejects, see \<open>fetchPrices\<close>), the outcome of
  \<open>scanYields()\<close> inside the \<open>findBestYield\<close> of the recovery check and inside the one of
  the standard check, the outcome of the vault call (\<open>depositToVault\<close> or
  \<open>withdrawFromVault\<close>; a run makes at most one of them) and the outcome of
  \<open>buildProtocolDeposit\<close>.
\<close>

record cycle_env =
  ce_now :: int
  ce_suiPrice :: rat
  ce_recoveryScan :: "string + YieldOpportunity list"
  ce_standardScan :: "string + YieldOpportunity list"
  ce_vault :: "string + VaultResult"
  ce_deposit :: "string + ProtocolAction"

text \<open>
  Control flow inside the \<open>try\<close> block: \<open>Continue\<close> falls through to the next statement,
  \<open>Finished\<close> is a \<open>return\<close>, \<open>Thrown\<close> is an exception on its way to the \<open>catch\<close>. Each
  carries the state reached: what was written before a \<open>throw\<close> stays written.
\<close>

datatype flow = Continue executor | Finished executor | Thrown executor

fun andThen :: "flow \<Rightarrow> (executor \<Rightarrow> flow) \<Rightarrow> flow" where
  "andThen (Continue s) f = f s"
| "andThen (Finished s) f = Finished s"
| "andThen (Thrown s) f = Thrown s"

fun settle :: "flow \<Rightarrow> executor" where
  \<comment> \<open>The end of the function: the \<open>catch\<close> block logs an error.\<close>
  "settle (Continue s) = s"
| "settle (Finished s) = s"
| "settle (Thrown s) = log Log_error s"

definition pushPrice :: "int \<Rightarrow> rat \<Rightarrow> executor \<Rightarrow> executor" where
  "pushPrice now suiPrice s =
     (let pushed = priceHistory s @ [\<lparr>ph_price = suiPrice, ph_timestamp = now\<rparr>]
      in s\<lparr>priceHistory := (if length pushed > MAX_PRICE_HISTORY then shift pushed
                             else pushed)\<rparr>)"

fun Math_min :: "rat list \<Rightarrow> rat" where
  \<comment> \<open>\<open>Math.min(...xs)\<close>; it is only applied to a list of at least three prices.\<close>
  "Math_min [] = 0"
| "Math_min [x] = x"
| "Math_min (x # y # ys) = min x (Math_min (y # ys))"

definition slice_last :: "nat \<Rightarrow> 'a list \<Rightarrow> 'a list" where
  \<comment> \<open>\<open>xs.slice(-n)\<close>\<close>
  "slice_last n xs = drop (length xs - n) xs"

definition safetyStep :: "cycle_env \<Rightarrow> executor \<Rightarrow> flow" where
  \<comment> \<open>"Check safety trigger". \<open>priceFromRecent\<close> divides by \<open>priceHistory[0].price\<close>
      without a guard; when that price is 0 JavaScript yields an infinity or NaN, of which
      only minus infinity (a negative current price) is below the threshold, and the risk
      score recorded for it is \<open>Math.min(100, Infinity)\<close>.\<close>
  "safetyStep e s =
     (let suiPrice = ce_suiPrice e;
          hist = priceHistory s;
          first = ph_price (hist ! 0);
          priceFromRecent = (if length hist > 2 then ((suiPrice - first) / first) * 100 else 0);
          fires = (if length hist > 2 \<and> first = 0 then suiPrice < 0
                   else priceFromRecent < - SAFETY_THRESHOLD_PCT);
          dropScore = (if length hist > 2 \<and> first = 0 then 100
                       else min 100 (of_int (Math_round (\<bar>priceFromRecent\<bar> * 5))))
      in if fires
         then (let moveAmount = suiYieldTotal (treasuryState s) * SAFETY_MOVE_RATIO
               in if moveAmount > 1
                  then (let s1 = log Log_action s
                        in case ce_vault e of
                             Inl _ \<Rightarrow> Thrown s1
                           | Inr result \<Rightarrow>
                               (if vr_success result
                                then (let ts = treasuryState s1;
                                          s2 = s1\<lparr>treasuryState :=
                                                  ts\<lparr>arcVaultBalance := arcVaultBalance ts + moveAmount,
                                                     suiYieldTotal := suiYieldTotal ts - moveAmount\<rparr>\<rparr>
                                      in Finished (snd (recordTreasuryDecision (ce_now e) Auto_safety
                                                          dropScore (Some moveAmount)
                                                          (Some (vr_txHash result)) Chain_arc s2)))
                                else Finished s1))
                  else Continue s)
         else Continue s)"

definition recoveryStep :: "cycle_env \<Rightarrow> executor \<Rightarrow> flow" where
  \<comment> \<open>"Check recovery trigger". No branch of it returns.\<close>
  "recoveryStep e s =
     (let suiPrice = ce_suiPrice e;
          hist = priceHistory s;
          recentLow = (if length hist > 2 then Math_min (map ph_price (slice_last 10 hist))
                       else suiPrice);
          recoveryFromLow = (if recentLow > 0 then ((suiPrice - recentLow) / recentLow) * 100
                             else 0)
      in if recoveryFromLow > RECOVERY_THRESHOLD_PCT \<and> arcVaultBalance (treasuryState s) > 1
         then (case ce_recoveryScan e of
                 Inl _ \<Rightarrow> Thrown s
               | Inr scanned \<Rightarrow>
                   (let yieldCheck = findBestYield (ce_now e) (riskLevel s) (currentPositions s)
                                       scanned;
                        bestApy = or_num (map_option yo_netApy (ysr_bestOpportunity yieldCheck)) 0
                    in if bestApy > MIN_YIELD_FOR_DEPLOYMENT
                       then (let redeployAmount = arcVaultBalance (treasuryState s) * (1 / 2);
                                 s1 = log Log_action s
                             in case ce_vault e of
                                  Inl _ \<Rightarrow> Thrown s1
                                | Inr result \<Rightarrow>
                                    (if vr_success result
                                     then (let ts = treasuryState s1;
                                               s2 = s1\<lparr>treasuryState :=
                                                       ts\<lparr>arcVaultBalance := arcVaultBalance ts - redeployAmount,
                                                          suiYieldTotal := suiYieldTotal ts + redeployAmount\<rparr>\<rparr>
                                           in Continue (snd (recordTreasuryDecision (ce_now e)
                                                Auto_redeploy
                                                (max 0 (50 - of_int (Math_round (recoveryFromLow * 3))))
                                                (Some redeployAmount) (Some (vr_txHash result))
                                                Chain_cross_chain s2)))
                                     else Continue s1))
                       else Continue s))
         else Continue s)"

definition standardStep :: "cycle_env \<Rightarrow> executor \<Rightarrow> flow" where
  \<comment> \<open>"Standard Yield Rebalancing", to the end of the \<open>try\<close> block.\<close>
  "standardStep e s =
     (case ce_standardScan e of
        Inl _ \<Rightarrow> Thrown s
      | Inr scanned \<Rightarrow>
          (let result = findBestYield (ce_now e) (riskLevel s) (currentPositions s) scanned;
               profile = RISK_PROFILES (riskLevel s)
           in case ysr_bestOpportunity result of
                None \<Rightarrow>
                  (if suiYieldTotal (treasuryState s) > 10
                      \<and> list_all (\<lambda>opp. yo_netApy opp < MIN_YIELD_FOR_DEPLOYMENT)
                            (ysr_opportunities result)
                   then Finished (snd (recordTreasuryDecision (ce_now e) Risk_assessment 55
                                         None None Chain_arc (log Log_info s)))
                   else Finished (log Log_info s))
              | Some best \<Rightarrow>
                  (let currentBest = (case ysr_currentAllocation result of
                                        [] \<Rightarrow> None | p # _ \<Rightarrow> Some p);
                       improvement = (case currentBest of
                                        Some c \<Rightarrow> yo_netApy best - yp_apy c
                                      | None \<Rightarrow> yo_netApy best);
                       s1 = log Log_info s
                   in if improvement > rebalanceThresholdApy profile
                      then (let protocolName = resolveProtocolName (yo_protocol best);
                                s2 = log Log_action s1;
                                built = (case protocolName of
                                           None \<Rightarrow> Continue s2
                                         | Some _ \<Rightarrow>
                                             (case ce_deposit e of
                                                Inl _ \<Rightarrow> Thrown s2
                                              | Inr _ \<Rightarrow> Continue (log Log_info s2)))
                            in andThen built (\<lambda>s3.
                                 (let position =
                                        \<lparr>yp_protocol = yo_protocol best, yp_chain = yo_chain best,
                                         yp_asset = yo_asset best,
                                         yp_amount = or_num (map_option yp_amount currentBest) 0,
                                         yp_amountUsd = or_num (map_option yp_amountUsd currentBest) 0,
                                         yp_apy = yo_netApy best,
                                         yp_earnedUsd = or_num (map_option yp_earnedUsd currentBest) 0,
                                         yp_depositedAt = ce_now e\<rparr>;
                                      s4 = s3\<lparr>currentPositions := setPosition position (currentPositions s3)\<rparr>
                                  in Finished (snd (recordTreasuryDecision (ce_now e) Rebalance
                                                      (riskScore (treasuryState s4))
                                                      (map_option yp_amountUsd currentBest) None
                                                      Chain_sui s4)))))
                      else Finished (log Log_info s1))))"

definition cycleBody :: "cycle_env \<Rightarrow> executor \<Rightarrow> executor" where
  \<comment> \<open>\<open>runOptimizationCycle\<close> from \<open>await getSuiPrice()\<close> on.\<close>
  "cycleBody e s =
     settle (andThen (andThen (safetyStep e (pushPrice (ce_now e) (ce_suiPrice e) s))
                        (recoveryStep e))
               (standardStep e))"

definition runOptimizationCycle :: "cycle_env \<Rightarrow> executor \<Rightarrow> executor" where
  \<comment> \<open>One run of the cycle that no other code interleaves with.\<close>
  "runOptimizationCycle e s = cycleBody e (log Log_info s)"

section \<open>Scheduler (agent/executor)\<close>

definition beginCycle :: "executor \<Rightarrow> executor" where
  \<comment> \<open>A call \<open>runOptimizationCycle(context)\<close> that is not awaited: the function runs to
      its first \<open>await\<close> (one log entry) and leaves a pending promise behind.\<close>
  "beginCycle s = (log Log_info s)\<lparr>inFlight := inFlight s + 1\<rparr>"

definition startAutoOptimizer :: "executor \<Rightarrow> executor" where
  "startAutoOptimizer s =
     (beginCycle (log Log_action (s\<lparr>agentRunning := True\<rparr>)))\<lparr>agentInterval := True\<rparr>"

definition stopAutoOptimizer :: "executor \<Rightarrow> executor" where
  "stopAutoOptimizer s = log Log_action (s\<lparr>agentRunning := False, agentInterval := False\<rparr>)"

section \<open>Executor entry point (agent/executor)\<close>

text \<open>
  The arguments of a call, with the types the source casts them to; \<open>None\<close> is a key
  that is absent. The surroundings of one call: the clock, the price \<open>getSuiPrice()\<close>
  resolves to, the outcomes of \<open>scanYields()\<close>, \<open>fetchFundingRates()\<close>, the vault call,
  \<open>buildDepositTx\<close> and \<open>buildProtocolDeposit\<close>, and \<open>context.delegatorExecute\<close>:
  \<open>None\<close> when the context has none, otherwise the outcome of calling it (\<open>Inr None\<close>
  for a \<open>null\<close> result). An outcome is that of the call actually made: the
  transaction builders throw on an amount that is no unsigned 64-bit integer.
\<close>

record fn_args =
  a_amount :: "rat option"
  a_protocol :: "string option"
  a_level :: "string option"
  a_reason :: "string option"

record ExecResult =
  er_digest :: string
  er_success :: bool

record call_env =
  ca_now :: int
  ca_suiPrice :: rat
  ca_scan :: "string + YieldOpportunity list"
  ca_fundingRates :: "string + FundingRate list"
  ca_vault :: "string + VaultResult"
  ca_depositTx :: "string + unit"
  ca_deposit :: "string + ProtocolAction"
  ca_delegator :: "(string + ExecResult option) option"

text \<open>
  Each case of the \<open>switch\<close> is a function of its own; \<open>executeFunction\<close> dispatches
  on the name after the log entry that every call writes first.
\<close>

definition case_depositToVault :: "fn_args \<Rightarrow> call_env \<Rightarrow> executor \<Rightarrow> string \<times> executor" where
  "case_depositToVault args env s =
     (let amount = or_num (a_amount args) 0
      in if amount \<le> 0 then (''Please specify an amount to deposit.'', s)
         else (case ca_delegator env of
                 None \<Rightarrow> (''Please fund the voice agent first. Click the wallet icon to deposit.'', s)
               | Some executed \<Rightarrow>
                   (case ca_depositTx env of
                      Inl _ \<Rightarrow> (''Deposit failed: '', s)
                    | Inr _ \<Rightarrow>
                        (case executed of
                           Inl _ \<Rightarrow> (''Deposit failed: '', s)
                         | Inr (Some result) \<Rightarrow>
                             (if er_success result
                              then (''Successfully deposited  SUI to the vault. Transaction: ...'',
                                    log Log_action s)
                              else (''Deposit transaction failed. Please try again.'', s))
                         | Inr None \<Rightarrow> (''Deposit transaction failed. Please try again.'', s)))))"

definition emdash :: string where
  \<comment> \<open>The UTF-8 bytes of the dash U+2014.\<close>
  "emdash = [char_of (226 :: nat), char_of (128 :: nat), char_of (148 :: nat)]"

definition case_withdrawFromVault :: "executor \<Rightarrow> string \<times> executor" where
  "case_withdrawFromVault s =
     (''Withdrawal initiated. Your SUI plus accumulated yield will be returned to your wallet. (Demo mode ''
        @ emdash @ '' full withdrawal logic requires on-chain receipt.)'',
      log Log_action s)"

definition newPosition :: "int \<Rightarrow> YieldOpportunity \<Rightarrow> rat \<Rightarrow> rat \<Rightarrow> YieldPosition" where
  \<comment> \<open>The object literal \<open>position\<close>, which \<open>moveToYield\<close> builds in four places.\<close>
  "newPosition now target amount amountUsd =
     \<lparr>yp_protocol = yo_protocol target, yp_chain = yo_chain target, yp_asset = yo_asset target,
      yp_amount = amount, yp_amountUsd = amountUsd, yp_apy = yo_netApy target,
      yp_earnedUsd = 0, yp_depositedAt = now\<rparr>"

definition recordPosition :: "YieldPosition \<Rightarrow> executor \<Rightarrow> executor" where
  "recordPosition position s = s\<lparr>currentPositions := setPosition position (currentPositions s)\<rparr>"

definition case_moveToYield :: "fn_args \<Rightarrow> call_env \<Rightarrow> executor \<Rightarrow> string \<times> executor" where
  "case_moveToYield args env s =
     (let protocolInput = or_str (a_protocol args) []
      in if protocolInput = [] then (''Please specify a protocol to move funds to.'', s)
         else (let suiPrice = ca_suiPrice env;
                   protocolName = resolveProtocolName protocolInput
               in case ca_scan env of
                    Inl _ \<Rightarrow> (''Move failed: '', s)
                  | Inr yields \<Rightarrow>
                      (case find (\<lambda>y. toLowerCase (yo_protocol y) = toLowerCase protocolInput
                                      \<or> (case protocolName of
                                            None \<Rightarrow> False
                                          | Some n \<Rightarrow> yo_protocol y = protocolText n)) yields of
                         None \<Rightarrow> (''Protocol '' @ [char_of (34 :: nat), char_of (34 :: nat)]
                                    @ '' not found. Available: '', s)
                       | Some target \<Rightarrow>
                           (let amount = or_num (a_amount args) 100;
                                amountUsd = amount * suiPrice;
                                position = newPosition (ca_now env) target amount amountUsd
                            in if protocolName \<noteq> None \<and> yo_isNative target
                               then (case ca_deposit env of
                                       Inl _ \<Rightarrow> (''Move failed: '', s)
                                     | Inr built \<Rightarrow>
                                         (let s1 = log Log_action s
                                          in if ca_delegator env \<noteq> None \<and> \<not> pa_isSimulated built
                                             then (case ca_delegator env of
                                                     Some (Inr (Some result)) \<Rightarrow>
                                                       (if er_success result
                                                        then (''. Transaction: ... Earning % APY.'',
                                                              log Log_action (recordPosition position s1))
                                                        else ('' deposit transaction failed.'', s1))
                                                   | Some (Inr None) \<Rightarrow>
                                                       ('' deposit transaction failed.'', s1)
                                                   | _ \<Rightarrow> ('' execution failed: '', s1))
                                             else (''. Now earning % APY.'',
                                                   recordPosition position s1)))
                               else if protocolName \<noteq> None \<and> \<not> yo_isNative target
                               then (case ca_deposit env of
                                       Inl _ \<Rightarrow> (''Move failed: '', s)
                                     | Inr built \<Rightarrow>
                                         (''. % net APY after % bridge fee. DeepBook swap + LI.FI bridge route prepared.'',
                                          log Log_action (recordPosition position s)))
                               else (if yo_isNative target
                                     then ''Deployed to  on  at % APY. Funds are now earning yield.''
                                     else ''Bridging to  via LI.FI, then deploying to  at % APY (net after % bridge fee).'',
                                     log Log_action (recordPosition position s))))))"

definition case_startAutoYield :: "executor \<Rightarrow> string \<times> executor" where
  "case_startAutoYield s =
     (if agentRunning s then (''Auto yield optimizer is already running.'', s)
      else (''Auto yield optimizer started. Monitoring yields every  seconds with  risk profile. Rebalance threshold: % APY. Integrations: Scallop, NAVI, DeepBook V3, Bluefin, LI.FI.'',
            startAutoOptimizer s))"

definition case_stopAutoYield :: "executor \<Rightarrow> string \<times> executor" where
  "case_stopAutoYield s =
     (if \<not> agentRunning s then (''Auto yield optimizer is not running.'', s)
      else (''Auto yield optimizer stopped.'', stopAutoOptimizer s))"

definition riskLevelOf :: "string \<Rightarrow> RiskLevel option" where
  "riskLevelOf level =
     map_of [(''conservative'', Conservative), (''moderate'', Moderate),
             (''aggressive'', Aggressive)] level"

definition case_setRiskLevel :: "fn_args \<Rightarrow> executor \<Rightarrow> string \<times> executor" where
  "case_setRiskLevel args s =
     (let level = or_str (a_level args) ''moderate''
      in case riskLevelOf level of
           None \<Rightarrow> (''Risk level must be: conservative, moderate, or aggressive.'', s)
         | Some l \<Rightarrow> (''Risk level set to . Rebalance threshold: % APY difference. Max protocol allocation: %. Cross-chain: .'',
                       log Log_info (s\<lparr>riskLevel := l\<rparr>)))"

definition reallocate :: "TreasuryState \<Rightarrow> TreasuryState" where
  \<comment> \<open>The three statements that recompute the allocation percentages.\<close>
  "reallocate ts =
     (let totalValue = arcVaultBalance ts + suiYieldTotal ts;
          arcPct = (if totalValue > 0 then (arcVaultBalance ts / totalValue) * 100 else 0)
      in ts\<lparr>allocationArcPct := arcPct, allocationSuiPct := 100 - arcPct\<rparr>)"

definition case_moveToArcVault :: "fn_args \<Rightarrow> call_env \<Rightarrow> executor \<Rightarrow> string \<times> executor" where
  "case_moveToArcVault args env s =
     (let amount = or_num (a_amount args) 0
      in if amount \<le> 0 then (''Please specify an amount in USDC to deposit.'', s)
         else (case ca_vault env of
                 Inl _ \<Rightarrow> (''Arc vault deposit failed: '', s)
               | Inr result \<Rightarrow>
                   (if vr_success result
                    then (let ts = treasuryState s;
                              s1 = s\<lparr>treasuryState :=
                                      reallocate (ts\<lparr>arcVaultBalance := arcVaultBalance ts + amount\<rparr>)\<rparr>;
                              s2 = snd (recordTreasuryDecision (ca_now env) Safety_deposit
                                          (riskScore (treasuryState s1)) (Some amount)
                                          (Some (vr_txHash result)) Chain_arc s1)
                          in (''Deposited $ USDC into Arc treasury vault.'', log Log_action s2))
                    else (''Arc vault deposit failed. Please check wallet balance and try again.'',
                          s))))"

definition case_withdrawFromArcVault ::
  "fn_args \<Rightarrow> call_env \<Rightarrow> executor \<Rightarrow> string \<times> executor" where
  "case_withdrawFromArcVault args env s =
     (let amount = or_num (a_amount args) 0
      in if amount \<le> 0 then (''Please specify an amount in USDC to withdraw.'', s)
         else (case ca_vault env of
                 Inl _ \<Rightarrow> (''Arc vault withdrawal failed: '', s)
               | Inr result \<Rightarrow>
                   (if vr_success result
                    then (let ts = treasuryState s;
                              s1 = s\<lparr>treasuryState :=
                                      reallocate (ts\<lparr>arcVaultBalance :=
                                                      max 0 (arcVaultBalance ts - amount)\<rparr>)\<rparr>;
                              s2 = snd (recordTreasuryDecision (ca_now env) Yield_withdraw
                                          (riskScore (treasuryState s1)) (Some amount)
                                          (Some (vr_txHash result)) Chain_arc s1)
                          in (''Withdrew $ USDC from Arc vault for yield redeployment.'',
                              log Log_action s2))
                    else (''Arc vault withdrawal failed. Check vault balance.'', s))))"

record RiskAssessment =
  ra_priceRisk :: rat
  ra_fundingRisk :: rat
  ra_yieldRisk :: rat
  ra_riskScore :: int
  ra_riskLabel :: string
  ra_recommendedArcPct :: rat
  ra_recommendedSuiPct :: rat

definition priceRisk :: "rat \<Rightarrow> rat" where
  "priceRisk priceChange24h = min 100 (max 0 (fmul \<bar>min 0 priceChange24h\<bar> 5))"

definition fundingRisk :: "rat \<Rightarrow> rat" where
  "fundingRisk avgFundingAnnualized =
     min 100 (max 0 (fadd (fmul (- avgFundingAnnualized) 2) 50))"

definition yieldRisk :: "rat \<Rightarrow> rat" where
  "yieldRisk bestYieldApy = min 100 (max 0 (fmul (fsub 5 bestYieldApy) 20))"

definition riskScoring :: "rat \<Rightarrow> rat \<Rightarrow> rat \<Rightarrow> RiskAssessment" where
  \<comment> \<open>The blocks "Compute risk score 0-100" and "Determine recommended allocation" of the
      case \<open>assessTreasuryRisk\<close>; the three components are the constants \<open>priceRisk\<close>,
      \<open>fundingRisk\<close> and \<open>yieldRisk\<close> of the source. The literals \<open>0.4\<close> and \<open>0.3\<close> are the
      doubles nearest to them; the sum associates to the left.\<close>
  "riskScoring priceChange24h avgFundingAnnualized bestYieldApy =
     (let score = Math_round
                    (fadd (fadd (fmul (priceRisk priceChange24h) (toDouble (4 / 10)))
                                (fmul (fundingRisk avgFundingAnnualized) (toDouble (3 / 10))))
                          (fmul (yieldRisk bestYieldApy) (toDouble (3 / 10))));
          scored = \<lparr>ra_priceRisk = priceRisk priceChange24h,
                    ra_fundingRisk = fundingRisk avgFundingAnnualized,
                    ra_yieldRisk = yieldRisk bestYieldApy, ra_riskScore = score,
                    ra_riskLabel = [], ra_recommendedArcPct = 0, ra_recommendedSuiPct = 0\<rparr>
      in if score \<ge> HIGH_RISK_THRESHOLD
         then scored\<lparr>ra_riskLabel := ''HIGH'', ra_recommendedArcPct := 70,
                     ra_recommendedSuiPct := 30\<rparr>
         else if score \<ge> MEDIUM_RISK_THRESHOLD
         then scored\<lparr>ra_riskLabel := ''MEDIUM'', ra_recommendedArcPct := 40,
                     ra_recommendedSuiPct := 60\<rparr>
         else scored\<lparr>ra_riskLabel := ''LOW'', ra_recommendedArcPct := 15,
                     ra_recommendedSuiPct := 85\<rparr>)"

definition priceChange24h :: "rat \<Rightarrow> PriceHistoryEntry list \<Rightarrow> rat" where
  \<comment> \<open>"Calculate 24h price change", on the history that already holds the current price.\<close>
  "priceChange24h suiPrice hist =
     (let oldest = (if length hist > 1 then ph_price (hist ! 0) else suiPrice)
      in if oldest > 0 then fmul (fdiv (fsub suiPrice oldest) oldest) 100 else 0)"

definition avgFundingAnnualized :: "string + FundingRate list \<Rightarrow> rat" where
  \<comment> \<open>"Funding rates signal": 0 when the fetch throws or returns no rate; otherwise the
      sum that \<open>reduce\<close> builds from 0, divided by the number of rates.\<close>
  "avgFundingAnnualized fetched =
     (case fetched of
        Inl _ \<Rightarrow> 0
      | Inr rates \<Rightarrow>
          (if length rates > 0
           then fdiv (foldl fadd 0 (map fr_annualizedRate rates)) (of_nat (length rates))
           else 0))"

definition bestYieldApy :: "call_env \<Rightarrow> executor \<Rightarrow> rat" where
  \<comment> \<open>"Best yield signal": 0 when the scan throws or finds nothing eligible.\<close>
  "bestYieldApy env s =
     (case ca_scan env of
        Inl _ \<Rightarrow> 0
      | Inr scanned \<Rightarrow>
          or_num (map_option yo_netApy
                    (ysr_bestOpportunity
                       (findBestYield (ca_now env) (riskLevel s) (currentPositions s) scanned))) 0)"

definition assessment :: "call_env \<Rightarrow> executor \<Rightarrow> RiskAssessment" where
  \<comment> \<open>The values the case \<open>assessTreasuryRisk\<close> computes on the state \<open>s\<close> it is entered
      with.\<close>
  "assessment env s =
     riskScoring
       (priceChange24h (ca_suiPrice env)
          (priceHistory (pushPrice (ca_now env) (ca_suiPrice env) s)))
       (avgFundingAnnualized (ca_fundingRates env))
       (bestYieldApy env s)"

definition case_assessTreasuryRisk :: "call_env \<Rightarrow> executor \<Rightarrow> string \<times> executor" where
  "case_assessTreasuryRisk env s =
     (let s1 = pushPrice (ca_now env) (ca_suiPrice env) s;
          ra = assessment env s;
          s2 = s1\<lparr>treasuryState := (treasuryState s1)\<lparr>riskScore := of_int (ra_riskScore ra)\<rparr>\<rparr>;
          s3 = snd (recordTreasuryDecision (ca_now env) Risk_assessment
                      (of_int (ra_riskScore ra)) None None Chain_arc s2)
      in (''Treasury Risk Assessment:'', log Log_info s3))"

definition otherCases :: "string list" where
  \<comment> \<open>The cases of the \<open>switch\<close> that this development does not embed.\<close>
  "otherCases =
     [''findBestYield'', ''getYieldPositions'', ''getVaultShare'', ''bridgeToChain'',
      ''getBridgeQuote'', ''getPortfolio'', ''getSuiBalance'', ''getArcBalance'',
      ''getAgentLog'', ''getBluefinMarkets'', ''getFundingRates'', ''getHedgeRecommendation'',
      ''getBluefinOrderbook'', ''openPerpPosition'', ''getTreasuryStatus'']"

definition executeFunction ::
  "string \<Rightarrow> fn_args \<Rightarrow> call_env \<Rightarrow> executor \<Rightarrow> (string \<times> executor) option" where
  \<comment> \<open>\<open>None\<close> for a case that is not embedded; the \<open>default\<close> case is the last line.\<close>
  "executeFunction name args env s0 =
     (let s = log Log_info s0
      in if name = ''depositToVault'' then Some (case_depositToVault args env s)
         else if name = ''withdrawFromVault'' then Some (case_withdrawFromVault s)
         else if name = ''moveToYield'' then Some (case_moveToYield args env s)
         else if name = ''startAutoYield'' then Some (case_startAutoYield s)
         else if name = ''stopAutoYield'' then Some (case_stopAutoYield s)
         else if name = ''setRiskLevel'' then Some (case_setRiskLevel args s)
         else if name = ''assessTreasuryRisk'' then Some (case_assessTreasuryRisk env s)
         else if name = ''moveToArcVault'' then Some (case_moveToArcVault args env s)
         else if name = ''withdrawFromArcVault'' then Some (case_withdrawFromArcVault args env s)
         else if name \<in> set otherCases then None
         else Some (''Unknown function: '', s))"

text \<open>
  What can happen to the scheduler: a request to start or to stop it arrives through
  \<open>executeFunction\<close>, the interval timer fires and runs its callback (there is a callback
  only while a timer handle is stored), or the promise of a started cycle settles. The
  work of a cycle after its first \<open>await\<close> is taken to happen in one step when it settles.
\<close>

datatype event = Start_requested | Stop_requested | Timer_fires | Cycle_settles cycle_env

fun step :: "executor \<Rightarrow> event \<Rightarrow> executor" where
  "step s Start_requested = snd (case_startAutoYield (log Log_info s))"
| "step s Stop_requested = snd (case_stopAutoYield (log Log_info s))"
| "step s Timer_fires = (if agentInterval s then beginCycle s else s)"
| "step s (Cycle_settles e) =
     (if inFlight s > 0 then (cycleBody e s)\<lparr>inFlight := inFlight s - 1\<rparr> else s)"

definition run :: "event list \<Rightarrow> executor \<Rightarrow> executor" where
  "run evs s = foldl step s evs"

section \<open>Scenarios\<close>

definition navi_at :: "rat \<Rightarrow> YieldOpportunity" where
  \<comment> \<open>The NAVI SUI pool as a scan reports it, at a given APY.\<close>
  "navi_at apy =
     \<lparr>yo_id = ''navi-sui-direct'', yo_protocol = ''NAVI'', yo_chain = ''Sui'', yo_asset = ''SUI'',
      yo_apy = apy, yo_tvl = 5000000, yo_pool = ''navi-sui'', yo_netApy = apy,
      yo_bridgeCostPct = 0, yo_isNative = True, yo_timestamp = 0\<rparr>"

definition simulated_deposit :: ProtocolAction where
  "simulated_deposit = \<lparr>pa_protocol = ''NAVI'', pa_action = ''deposit'', pa_isSimulated = True\<rparr>"

definition vault_ok :: VaultResult where
  "vault_ok = \<lparr>vr_txHash = ''sim_withdraw_1d4c0'', vr_success = True\<rparr>"

definition recovery_state :: executor where
  \<comment> \<open>A running optimizer with 100 USDC in the Arc vault, no position, and two cycles
      behind it that saw SUI at 1.00.\<close>
  "recovery_state =
     initial_executor
       \<lparr>agentRunning := True, agentInterval := True,
        priceHistory := [\<lparr>ph_price = 1, ph_timestamp = 0\<rparr>, \<lparr>ph_price = 1, ph_timestamp = 60000\<rparr>],
        treasuryState := initial_treasuryState\<lparr>arcVaultBalance := 100\<rparr>\<rparr>"

definition recovery_cycle :: cycle_env where
  \<comment> \<open>The third cycle sees SUI at 1.10 (10% above the low) and NAVI at 10% net APY; the
      vault withdrawal succeeds.\<close>
  "recovery_cycle =
     \<lparr>ce_now = 120000, ce_suiPrice = 11 / 10, ce_recoveryScan = Inr [navi_at 10],
      ce_standardScan = Inr [navi_at 10], ce_vault = Inr vault_ok,
      ce_deposit = Inr simulated_deposit\<rparr>"

definition quiet_cycle :: "int \<Rightarrow> rat \<Rightarrow> cycle_env" where
  \<comment> \<open>A cycle at a steady SUI price of 1.00 in which the scan reports NAVI at the given
      net APY.\<close>
  "quiet_cycle now apy =
     \<lparr>ce_now = now, ce_suiPrice = 1, ce_recoveryScan = Inr [navi_at apy],
      ce_standardScan = Inr [navi_at apy], ce_vault = Inr vault_ok,
      ce_deposit = Inr simulated_deposit\<rparr>"

definition scenarioA_state :: executor where
  \<comment> \<open>Scenario A: the two earlier assessments saw SUI at 2.00 and at 1.90.\<close>
  "scenarioA_state =
     initial_executor\<lparr>priceHistory := [\<lparr>ph_price = 2, ph_timestamp = 0\<rparr>,
                                       \<lparr>ph_price = toDouble (19 / 10), ph_timestamp = 60000\<rparr>]\<rparr>"

definition scenarioA_env :: call_env where
  \<comment> \<open>Scenario A: SUI is now at 1.80, no funding rate is away from 0 (the fetch returns
      none), and the best eligible opportunity pays 3% net.\<close>
  "scenarioA_env =
     \<lparr>ca_now = 120000, ca_suiPrice = toDouble (18 / 10), ca_scan = Inr [navi_at 3],
      ca_fundingRates = Inr [], ca_vault = Inr vault_ok, ca_depositTx = Inr (),
      ca_deposit = Inr simulated_deposit, ca_delegator = None\<rparr>"

definition tenth_down_state :: executor where
  \<comment> \<open>An earlier assessment saw SUI at 10.00.\<close>
  "tenth_down_state = initial_executor\<lparr>priceHistory := [\<lparr>ph_price = 10, ph_timestamp = 0\<rparr>]\<rparr>"

definition tenth_down_env :: call_env where
  \<comment> \<open>SUI is now at 9.00, one tenth below 10.00; no funding, best net yield 3%.\<close>
  "tenth_down_env =
     \<lparr>ca_now = 60000, ca_suiPrice = 9, ca_scan = Inr [navi_at 3],
      ca_fundingRates = Inr [], ca_vault = Inr vault_ok, ca_depositTx = Inr (),
      ca_deposit = Inr simulated_deposit, ca_delegator = None\<rparr>"

definition slight_drop_state :: executor where
  \<comment> \<open>An earlier assessment saw SUI at 1.00.\<close>
  "slight_drop_state = initial_executor\<lparr>priceHistory := [\<lparr>ph_price = 1, ph_timestamp = 0\<rparr>]\<rparr>"

definition slight_drop_env :: call_env where
  \<comment> \<open>SUI is now at 0.9925; no funding, best net yield 2%.\<close>
  "slight_drop_env =
     \<lparr>ca_now = 60000, ca_suiPrice = toDouble (9925 / 10000), ca_scan = Inr [navi_at 2],
      ca_fundingRates = Inr [], ca_vault = Inr vault_ok, ca_depositTx = Inr (),
      ca_deposit = Inr simulated_deposit, ca_delegator = None\<rparr>"

definition yield_move_env :: call_env where
  \<comment> \<open>A voice command while SUI is at 2.00 and the scan reports NAVI at 10%; the context
      has no \<open>delegatorExecute\<close>.\<close>
  "yield_move_env =
     \<lparr>ca_now = 500000, ca_suiPrice = 2, ca_scan = Inr [navi_at 10],
      ca_fundingRates = Inr [], ca_vault = Inr vault_ok, ca_depositTx = Inr (),
      ca_deposit = Inr simulated_deposit, ca_delegator = None\<rparr>"

section \<open>The specification's wording\<close>

definition clamp :: "rat \<Rightarrow> rat \<Rightarrow> rat \<Rightarrow> rat" where
  \<comment> \<open>\<open>clamp(x, lo, hi)\<close> as the specification writes its risk components; it selects one
      of its arguments and rounds nothing.\<close>
  "clamp x lo hi = max lo (min hi x)"

section \<open>Offline intent queue (agent/offline-queue)\<close>




















definition opp_inv :: "YieldOpportunity \<Rightarrow> bool" where
  \<comment> \<open>The invariant of a scanned opportunity, with the fact that carries it through the
      NAVI overlay: an opportunity named NAVI has no bridge cost.\<close>
  "opp_inv opp =
     (yo_netApy opp = yo_apy opp - yo_bridgeCostPct opp
      \<and> (if yo_isNative opp then yo_bridgeCostPct opp = 0 else True)
      \<and> (if yo_protocol opp = ''NAVI'' then yo_bridgeCostPct opp = 0 else True))"

definition example_llama :: "DefiLlamaPool list" where
  \<comment> \<open>A pool list with NAVI on Sui, Aave on Arbitrum and a Scallop pool below the TVL
      floor.\<close>
  "example_llama =
     [\<lparr>lp_pool = ''navi-sui'', lp_chain = ''Sui'', lp_project = ''navi-lending'',
       lp_symbol = ''SUI'', lp_tvlUsd = 5000000, lp_apy = 4, lp_apyBase = Some 4,
       lp_apyReward = None, lp_stablecoin = False\<rparr>,
      \<lparr>lp_pool = ''aave-usdc'', lp_chain = ''Arbitrum'', lp_project = ''aave-v3'',
       lp_symbol = ''USDC'', lp_tvlUsd = 90000000, lp_apy = 7, lp_apyBase = Some 7,
       lp_apyReward = None, lp_stablecoin = True\<rparr>,
      \<lparr>lp_pool = ''tiny'', lp_chain = ''Sui'', lp_project = ''scallop-lend'',
       lp_symbol = ''SUI'', lp_tvlUsd = 50000, lp_apy = 9, lp_apyBase = None,
       lp_apyReward = None, lp_stablecoin = False\<rparr>]"

definition example_navi :: "NaviPoolData list" where
  "example_navi =
     [\<lparr>np_supplyApy = 6, np_borrowApy = 9, np_tvlUsd = 6000000, np_asset = ''SUI''\<rparr>,
      \<lparr>np_supplyApy = 5, np_borrowApy = 8, np_tvlUsd = 3000000, np_asset = ''USDC''\<rparr>]"

definition example_funding :: "FundingYield list" where
  "example_funding =
     [\<lparr>fy_symbol = ''SUI-PERP'', fy_direction = Short, fy_annualizedYield = 11,
       fy_fundingRate = 1 / 10000\<rparr>]"

definition example_scanned :: "YieldOpportunity list" where
  \<comment> \<open>What the scan makes of the three lists above at time 1000.\<close>
  "example_scanned =
     [\<lparr>yo_id = ''bluefin-sui-perp-funding'', yo_protocol = ''Bluefin'', yo_chain = ''Sui'',
       yo_asset = ''SUI-PERP (short)'', yo_apy = 11, yo_tvl = 0, yo_pool = ''bluefin-sui-perp'',
       yo_netApy = 11, yo_bridgeCostPct = 0, yo_isNative = True, yo_timestamp = 1000\<rparr>,
      \<lparr>yo_id = ''aave-usdc'', yo_protocol = ''Aave V3'', yo_chain = ''Arbitrum'',
       yo_asset = ''USDC'', yo_apy = 7, yo_tvl = 90000000, yo_pool = ''aave-usdc'',
       yo_netApy = 67 / 10, yo_bridgeCostPct = 3 / 10, yo_isNative = False,
       yo_timestamp = 1000\<rparr>,
      \<lparr>yo_id = ''navi-sui'', yo_protocol = ''NAVI'', yo_chain = ''Sui'', yo_asset = ''SUI'',
       yo_apy = 6, yo_tvl = 6000000, yo_pool = ''navi-sui'', yo_netApy = 6,
       yo_bridgeCostPct = 0, yo_isNative = True, yo_timestamp = 1000\<rparr>,
      \<lparr>yo_id = ''navi-usdc-direct'', yo_protocol = ''NAVI'', yo_chain = ''Sui'',
       yo_asset = ''USDC'', yo_apy = 5, yo_tvl = 3000000, yo_pool = ''navi-usdc'',
       yo_netApy = 5, yo_bridgeCostPct = 0, yo_isNative = True, yo_timestamp = 1000\<rparr>]"

section \<open>Decision ledger\<close>

lemma ledger_after_record:
  "treasuryDecisions (snd (recordTreasuryDecision now ty score amount txHash chain s)) =
     (let pushed = treasuryDecisions s @ [fst (recordTreasuryDecision now ty score amount txHash chain s)]
      in if length pushed > 50 then shift pushed else pushed)"
  by (simp add: recordTreasuryDecision_def Let_def)

lemma length_shift: "length (shift xs) = length xs - 1"
  by (cases xs) (simp_all add: shift_def)

lemma record_one_bound:
  "length (treasuryDecisions s) \<le> 50 \<Longrightarrow> length (treasuryDecisions (record_one c s)) \<le> 50"
  by (simp add: record_one_def ledger_after_record Let_def length_shift)

lemma record_all_bound:
  "length (treasuryDecisions s) \<le> 50 \<Longrightarrow> length (treasuryDecisions (record_all cs s)) \<le> 50"
  by (induction cs arbitrary: s) (simp_all add: record_one_bound)

text \<open>
  Claim C7. The ledger never holds more than 50 decisions: whatever sequence of record
  operations runs from the initial state, at most 50 entries are kept. A record operation
  on a ledger that already holds 50 (or more) entries removes exactly the first, oldest
  entry and puts the new decision last; on a shorter ledger it only appends.
\<close>

theorem ledger_capacity_fifo:
  "length (treasuryDecisions (record_all cs initial_executor)) \<le> 50 \<and>
   treasuryDecisions (snd (recordTreasuryDecision now ty score amount txHash chain s)) =
     (if 50 \<le> length (treasuryDecisions s)
      then tl (treasuryDecisions s) @ [fst (recordTreasuryDecision now ty score amount txHash chain s)]
      else treasuryDecisions s @ [fst (recordTreasuryDecision now ty score amount txHash chain s)])"
proof
  show "length (treasuryDecisions (record_all cs initial_executor)) \<le> 50"
    by (rule record_all_bound) (simp add: initial_executor_def)
next
  show "treasuryDecisions (snd (recordTreasuryDecision now ty score amount txHash chain s)) =
     (if 50 \<le> length (treasuryDecisions s)
      then tl (treasuryDecisions s) @ [fst (recordTreasuryDecision now ty score amount txHash chain s)]
      else treasuryDecisions s @ [fst (recordTreasuryDecision now ty score amount txHash chain s)])"
  proof (cases "treasuryDecisions s")
    case Nil
    then show ?thesis by (simp add: ledger_after_record Let_def)
  next
    case (Cons d ds)
    then show ?thesis by (auto simp: ledger_after_record Let_def shift_def)
  qed
qed

section \<open>Rebalance policy\<close>

lemma makeDecision_fields:
  "ad_action (fst (makeDecision now k act amt ch)) = act"
  "ad_amountIn (fst (makeDecision now k act amt ch)) = amt"
  "ad_chain (fst (makeDecision now k act amt ch)) = ch"
  by (simp_all add: makeDecision_def)

text \<open>
  Claim C8. Crash safety comes first: whenever the SUI price (the first entry of the price
  list whose asset is SUI) is below 0.5, the policy returns a safety move of half the SUI
  balance towards Arc, whatever the portfolio percentages, the previous decisions, the
  clock and the yield opportunities are; the risk score is no input of the policy. In
  particular this happens at a SUI price of 0.4.
\<close>

theorem crash_safety_first:
  assumes "find (\<lambda>p. pd_asset p = ''SUI'') prices = Some p" and "pd_price p < 1 / 2"
  shows "ad_action (fst (evaluateStrategy now k portfolio prices prev yields)) = SAFETY_MOVE
     \<and> ad_amountIn (fst (evaluateStrategy now k portfolio prices prev yields))
         = h_balance (ps_sui portfolio) sdiv 2
     \<and> ad_chain (fst (evaluateStrategy now k portfolio prices prev yields))
         = ''sui'' @ arrow @ ''arc''
     \<and> ad_action (fst (evaluateStrategy now k portfolio
          (\<lparr>pd_asset = ''SUI'', pd_price = 4 / 10, pd_timestamp = t, pd_source = src\<rparr> # rest)
          prev yields)) = SAFETY_MOVE"
  using assms by (simp add: evaluateStrategy_def makeDecision_fields)

theorem crash_safety_first_witness:
  "ad_action (fst (evaluateStrategy 1000000 0
      \<lparr>ps_sui = \<lparr>h_balance = 7000000001, h_valueUsd = 28 / 10, h_percentage = 50\<rparr>,
       ps_arc = \<lparr>h_balance = 2800000, h_valueUsd = 28 / 10, h_percentage = 50\<rparr>,
       ps_totalValueUsd = 56 / 10\<rparr>
      [\<lparr>pd_asset = ''ETH'', pd_price = 3000, pd_timestamp = 999000, pd_source = ''coingecko''\<rparr>,
       \<lparr>pd_asset = ''SUI'', pd_price = 4 / 10, pd_timestamp = 999000, pd_source = ''coingecko''\<rparr>]
      [\<lparr>ad_id = (1, 990000), ad_timestamp = 990000, ad_action = YIELD_REBALANCE,
        ad_amountIn = 0, ad_amountOut = 0, ad_chain = ''sui'', ad_txHash = None,
        ad_status = St_pending\<rparr>]
      (Some [\<lparr>yo_id = ''p1'', yo_protocol = ''NAVI'', yo_chain = ''Sui'', yo_asset = ''SUI'',
              yo_apy = 12, yo_tvl = 5000000, yo_pool = ''p1'', yo_netApy = 12,
              yo_bridgeCostPct = 0, yo_isNative = True, yo_timestamp = 999000\<rparr>]))) = SAFETY_MOVE
   \<and> ad_amountIn (fst (evaluateStrategy 1000000 0
      \<lparr>ps_sui = \<lparr>h_balance = 7000000001, h_valueUsd = 28 / 10, h_percentage = 50\<rparr>,
       ps_arc = \<lparr>h_balance = 2800000, h_valueUsd = 28 / 10, h_percentage = 50\<rparr>,
       ps_totalValueUsd = 56 / 10\<rparr>
      [\<lparr>pd_asset = ''ETH'', pd_price = 3000, pd_timestamp = 999000, pd_source = ''coingecko''\<rparr>,
       \<lparr>pd_asset = ''SUI'', pd_price = 4 / 10, pd_timestamp = 999000, pd_source = ''coingecko''\<rparr>]
      [\<lparr>ad_id = (1, 990000), ad_timestamp = 990000, ad_action = YIELD_REBALANCE,
        ad_amountIn = 0, ad_amountOut = 0, ad_chain = ''sui'', ad_txHash = None,
        ad_status = St_pending\<rparr>]
      (Some [\<lparr>yo_id = ''p1'', yo_protocol = ''NAVI'', yo_chain = ''Sui'', yo_asset = ''SUI'',
              yo_apy = 12, yo_tvl = 5000000, yo_pool = ''p1'', yo_netApy = 12,
              yo_bridgeCostPct = 0, yo_isNative = True, yo_timestamp = 999000\<rparr>]))) = 3500000000"
proof -
  let ?p = "\<lparr>pd_asset = ''SUI'', pd_price = 4 / 10, pd_timestamp = 999000, pd_source = ''coingecko''\<rparr>"
  let ?prices = "[\<lparr>pd_asset = ''ETH'', pd_price = 3000, pd_timestamp = 999000, pd_source = ''coingecko''\<rparr>, ?p]"
  have f: "find (\<lambda>p. pd_asset p = ''SUI'') ?prices = Some ?p" by simp
  have lt: "pd_price ?p < 1 / 2" by simp
  have half: "(7000000001 :: int) sdiv 2 = 3500000000"
    by (simp add: signed_divide_int_def)
  from crash_safety_first [OF f lt] half show ?thesis by simp
qed

lemma sorted_map_le_last:
  "sorted (map f xs) \<Longrightarrow> x \<in> set xs \<Longrightarrow> f x \<le> f (last xs)"
  by (induction xs) auto

lemma lastYieldRebalance_recent:
  assumes "sorted (map ad_timestamp prev)" and "d \<in> set prev"
    and "ad_action d = YIELD_REBALANCE"
  shows "\<exists>c. lastYieldRebalance prev = Some c \<and> ad_timestamp d \<le> ad_timestamp c"
proof -
  let ?ys = "filter (\<lambda>d. ad_action d = YIELD_REBALANCE) prev"
  have mem: "d \<in> set ?ys" using assms by simp
  then have ne: "?ys \<noteq> []" by (metis empty_iff empty_set)
  have "sorted (map ad_timestamp ?ys)"
    using assms(1) by (simp add: sorted_filter)
  then have le: "ad_timestamp d \<le> ad_timestamp (last ?ys)"
    using mem by (rule sorted_map_le_last)
  have "lastYieldRebalance prev = Some (last ?ys)"
    using ne by (simp add: lastYieldRebalance_def last_rev hd_rev split: list.splits)
  with le show ?thesis by blast
qed

lemma yieldRebalanceCheck_hysteresis:
  assumes "sorted (map ad_timestamp prev)" and "d \<in> set prev"
    and "ad_action d = YIELD_REBALANCE"
    and "now - ad_timestamp d < 5 * LOOP_INTERVAL"
  shows "yieldRebalanceCheck now prev yields = None"
proof -
  obtain c where c: "lastYieldRebalance prev = Some c" "ad_timestamp d \<le> ad_timestamp c"
    using lastYieldRebalance_recent [OF assms(1-3)] by blast
  then have "\<not> now - ad_timestamp c > LOOP_INTERVAL * 5" using assms(4) by simp
  with c(1) show ?thesis
    by (simp add: yieldRebalanceCheck_def split: option.splits list.splits)
qed

text \<open>
  Claim C3, as amended. The hysteresis is a rule of the policy function
  \<open>evaluateStrategy\<close>: when the previous decisions are in the order they were taken and one
  of them is a yield rebalance taken less than 5 loop intervals before now, the policy
  does not return a yield rebalance, however good the best opportunity is.
\<close>

theorem policy_hysteresis:
  assumes "sorted (map ad_timestamp prev)" and "d \<in> set prev"
    and "ad_action d = YIELD_REBALANCE"
    and "now - ad_timestamp d < 5 * LOOP_INTERVAL"
  shows "ad_action (fst (evaluateStrategy now k portfolio prices prev yields)) \<noteq> YIELD_REBALANCE"
  using yieldRebalanceCheck_hysteresis [OF assms, of yields]
  by (simp add: evaluateStrategy_def makeDecision_fields Let_def split: option.splits prod.splits)

theorem policy_hysteresis_witness:
  "ad_action (fst (evaluateStrategy 1060000 1
      \<lparr>ps_sui = \<lparr>h_balance = 1000000000, h_valueUsd = 2, h_percentage = 50\<rparr>,
       ps_arc = \<lparr>h_balance = 2000000, h_valueUsd = 2, h_percentage = 50\<rparr>,
       ps_totalValueUsd = 4\<rparr>
      [\<lparr>pd_asset = ''SUI'', pd_price = 2, pd_timestamp = 1059000, pd_source = ''coingecko''\<rparr>]
      [\<lparr>ad_id = (1, 1000000), ad_timestamp = 1000000, ad_action = YIELD_REBALANCE,
        ad_amountIn = 0, ad_amountOut = 0, ad_chain = ''sui'', ad_txHash = None,
        ad_status = St_pending\<rparr>]
      (Some [navi_at 13]))) \<noteq> YIELD_REBALANCE"
proof -
  let ?d = "\<lparr>ad_id = (1, 1000000), ad_timestamp = 1000000, ad_action = YIELD_REBALANCE,
        ad_amountIn = 0, ad_amountOut = 0, ad_chain = ''sui'', ad_txHash = None,
        ad_status = St_pending\<rparr>"
  have a: "sorted (map ad_timestamp [?d])" by simp
  have b: "?d \<in> set [?d]" by simp
  have c: "ad_action ?d = YIELD_REBALANCE" by simp
  have d: "1060000 - ad_timestamp ?d < 5 * LOOP_INTERVAL" by (simp add: LOOP_INTERVAL_def)
  show ?thesis by (rule policy_hysteresis [OF a b c d])
qed

text \<open>
  Claim C3, as stated, fails on the scheduler's cycle, which has no such window. Two
  consecutive cycles, 60 seconds apart, in which NAVI is the best opportunity at 10% and
  then at 13% net APY (both above every rebalance floor): the first cycle records a
  rebalance, and the second, one interval later, records another one.
\<close>

theorem cycle_rebalances_again:
  "map td_type (treasuryDecisions
      (runOptimizationCycle (quiet_cycle 1060000 13)
         (runOptimizationCycle (quiet_cycle 1000000 10) initial_executor)))
     = [Rebalance, Rebalance]
   \<and> map td_timestamp (treasuryDecisions
      (runOptimizationCycle (quiet_cycle 1060000 13)
         (runOptimizationCycle (quiet_cycle 1000000 10) initial_executor)))
     = [1000000, 1060000]
   \<and> 1060000 - 1000000 < 5 * LOOP_INTERVAL"
  by code_simp

section \<open>Optimization cycle\<close>

text \<open>
  Claim C1, evaluated where the recovery trigger fires. SUI has recovered 10% from its
  low, 100 USDC sit in the Arc vault and NAVI pays 10%: the cycle withdraws 50 USDC and
  records an automatic redeployment, then runs on into the standard check, which records
  a rebalance in the same run. The ledger was empty before.
\<close>

theorem recovery_cycle_records_two:
  "treasuryDecisions recovery_state = []
   \<and> map td_type (treasuryDecisions (runOptimizationCycle recovery_cycle recovery_state))
       = [Auto_redeploy, Rebalance]"
  by code_simp

section \<open>Scheduler\<close>

lemma log_keeps:
  "inFlight (log l s) = inFlight s"
  "agentInterval (log l s) = agentInterval s"
  "agentRunning (log l s) = agentRunning s"
  "treasuryState (log l s) = treasuryState s"
  "currentPositions (log l s) = currentPositions s"
  "treasuryDecisions (log l s) = treasuryDecisions s"
  "riskLevel (log l s) = riskLevel s"
  by (simp_all add: log_def Let_def)

lemma ticks_accumulate:
  "agentInterval s \<Longrightarrow>
     inFlight (run (replicate k Timer_fires) s) = inFlight s + k
     \<and> agentInterval (run (replicate k Timer_fires) s)"
  by (induction k arbitrary: s) (simp_all add: run_def beginCycle_def log_keeps)

text \<open>
  Claim C2, as stated, fails: the optimizer is started, and the timer fires before the
  first cycle has settled. The callback starts a second execution; two are in flight.
\<close>

theorem tick_overlaps_running_cycle:
  "agentRunning (run [Start_requested, Timer_fires] initial_executor)
   \<and> inFlight (run [Start_requested, Timer_fires] initial_executor) = 2"
  by code_simp

text \<open>
  Claim C2, as amended. The timer callback has no guard: while a timer handle is stored,
  every firing starts one more execution of the cycle, whatever number is still in
  flight, and without a handle it starts none. So after the start, \<open>k\<close> firings that no
  cycle has settled before leave \<open>k + 1\<close> executions in flight.
\<close>

theorem tick_never_skipped:
  "inFlight (step s Timer_fires) = (if agentInterval s then inFlight s + 1 else inFlight s)
   \<and> inFlight (run (Start_requested # replicate k Timer_fires) initial_executor) = Suc k"
proof
  show "inFlight (step s Timer_fires) = (if agentInterval s then inFlight s + 1 else inFlight s)"
    by (simp add: beginCycle_def)
next
  let ?s = "step initial_executor Start_requested"
  have a: "agentInterval ?s" and b: "inFlight ?s = 1"
    by (simp_all add: case_startAutoYield_def startAutoOptimizer_def beginCycle_def
          initial_executor_def log_keeps)
  have "run (Start_requested # replicate k Timer_fires) initial_executor
          = run (replicate k Timer_fires) ?s"
    by (simp add: run_def)
  with ticks_accumulate [OF a, of k] b
  show "inFlight (run (Start_requested # replicate k Timer_fires) initial_executor) = Suc k"
    by simp
qed

section \<open>Risk assessment\<close>

lemma double_steps:
  "fmul 10 5 = 50"
  "fmul 0 2 = 0"
  "fadd 0 50 = 50"
  "fsub 5 3 = 2"
  "fmul 2 20 = 40"
  "toDouble (2 / 5) = 3602879701896397 / 9007199254740992"
  "fmul 50 (3602879701896397 / 9007199254740992) = 20"
  "toDouble (3 / 10) = 5404319552844595 / 18014398509481984"
  "fmul 50 (5404319552844595 / 18014398509481984) = 15"
  "fadd 20 15 = 35"
  "fmul 40 (5404319552844595 / 18014398509481984) = 12"
  "fadd 35 12 = 47"
  "Math_round 47 = 47"
  "toDouble (9 / 5) = 8106479329266893 / 4503599627370496"
  "fsub (8106479329266893 / 4503599627370496) 2 = - (900719925474099 / 4503599627370496)"
  "fdiv (- (900719925474099 / 4503599627370496)) 2 = - (900719925474099 / 9007199254740992)"
  "fmul (- (900719925474099 / 9007199254740992)) 100 = - (5629499534213119 / 562949953421312)"
  "fmul (5629499534213119 / 562949953421312) 5 = 7036874417766399 / 140737488355328"
  "fmul (7036874417766399 / 140737488355328) (3602879701896397 / 9007199254740992) = 20"
  "fsub 9 10 = - 1"
  "fdiv (- 1) 10 = - (3602879701896397 / 36028797018963968)"
  "fmul (- (3602879701896397 / 36028797018963968)) 100 = - 10"
  "toDouble (397 / 400) = 8939645260330435 / 9007199254740992"
  "fsub (8939645260330435 / 9007199254740992) 1 = - (67553994410557 / 9007199254740992)"
  "fdiv (- (67553994410557 / 9007199254740992)) 1 = - (67553994410557 / 9007199254740992)"
  "fmul (- (67553994410557 / 9007199254740992)) 100 = - (1688849860263925 / 2251799813685248)"
  "fmul (1688849860263925 / 2251799813685248) 5 = 8444249301319625 / 2251799813685248"
  "fsub 5 2 = 3"
  "fmul 3 20 = 60"
  "fmul (8444249301319625 / 2251799813685248) (3602879701896397 / 9007199254740992) = 1688849860263925 / 1125899906842624"
  "fadd (1688849860263925 / 1125899906842624) 15 = 4644337115725821 / 281474976710656"
  "fmul 60 (5404319552844595 / 18014398509481984) = 18"
  "fadd (4644337115725821 / 281474976710656) 18 = 2427721674129407 / 70368744177664"
  "Math_round (2427721674129407 / 70368744177664) = 34"
  "toDouble (43 / 20) = 4841369599423283 / 2251799813685248"
  "fmul 0 5 = 0"
  "fmul (- 1) 2 = - 2"
  "fadd (- 2) 50 = 48"
  "fsub 5 (4841369599423283 / 2251799813685248) = 6417629469002957 / 2251799813685248"
  "fmul (6417629469002957 / 2251799813685248) 20 = 57"
  "fmul 0 (3602879701896397 / 9007199254740992) = 0"
  "fmul 48 (5404319552844595 / 18014398509481984) = 2026619832316723 / 140737488355328"
  "fadd 0 (2026619832316723 / 140737488355328) = 2026619832316723 / 140737488355328"
  "fmul 57 (5404319552844595 / 18014398509481984) = 4813222101752217 / 281474976710656"
  "fadd (2026619832316723 / 140737488355328) (4813222101752217 / 281474976710656) = 8866461766385663 / 281474976710656"
  "Math_round (8866461766385663 / 281474976710656) = 31"
  "toDouble (19 / 10) = 4278419646001971 / 2251799813685248"
  by code_simp+

lemma risk_fields:
  "ra_priceRisk (riskScoring p f y) = priceRisk p"
  "ra_fundingRisk (riskScoring p f y) = fundingRisk f"
  "ra_yieldRisk (riskScoring p f y) = yieldRisk y"
  "ra_riskScore (riskScoring p f y) =
     Math_round (fadd (fadd (fmul (priceRisk p) (toDouble (4 / 10)))
                            (fmul (fundingRisk f) (toDouble (3 / 10))))
                      (fmul (yieldRisk y) (toDouble (3 / 10))))"
  by (simp_all add: riskScoring_def Let_def)

lemma risk_components:
  "priceRisk p = clamp (fmul (max 0 (- p)) 5) 0 100"
  "fundingRisk f = clamp (fadd (fmul (- f) 2) 50) 0 100"
  "yieldRisk y = clamp (fmul (fsub 5 y) 20) 0 100"
proof -
  have "\<bar>min 0 p\<bar> = max 0 (- p)" by (simp add: min_def max_def)
  then show "priceRisk p = clamp (fmul (max 0 (- p)) 5) 0 100"
    by (simp add: priceRisk_def clamp_def min_def max_def)
  show "fundingRisk f = clamp (fadd (fmul (- f) 2) 50) 0 100"
    by (simp add: fundingRisk_def clamp_def min_def max_def)
  show "yieldRisk y = clamp (fmul (fsub 5 y) 20) 0 100"
    by (simp add: yieldRisk_def clamp_def min_def max_def)
qed

lemma fmul_commute: "fmul a b = fmul b a"
  by (simp add: fmul_def mult.commute)

lemma risk_bands:
  "(65 \<le> ra_riskScore (riskScoring p f y) \<and> ra_riskLabel (riskScoring p f y) = ''HIGH''
      \<and> ra_recommendedArcPct (riskScoring p f y) = 70
      \<and> ra_recommendedSuiPct (riskScoring p f y) = 30)
   \<or> (35 \<le> ra_riskScore (riskScoring p f y) \<and> ra_riskScore (riskScoring p f y) \<le> 64
      \<and> ra_riskLabel (riskScoring p f y) = ''MEDIUM''
      \<and> ra_recommendedArcPct (riskScoring p f y) = 40
      \<and> ra_recommendedSuiPct (riskScoring p f y) = 60)
   \<or> (ra_riskScore (riskScoring p f y) < 35 \<and> ra_riskLabel (riskScoring p f y) = ''LOW''
      \<and> ra_recommendedArcPct (riskScoring p f y) = 15
      \<and> ra_recommendedSuiPct (riskScoring p f y) = 85)"
proof -
  define k where
    "k = Math_round (fadd (fadd (fmul (priceRisk p) (toDouble (4 / 10)))
                               (fmul (fundingRisk f) (toDouble (3 / 10))))
                         (fmul (yieldRisk y) (toDouble (3 / 10))))"
  have r: "riskScoring p f y =
     (let scored = \<lparr>ra_priceRisk = priceRisk p, ra_fundingRisk = fundingRisk f,
                    ra_yieldRisk = yieldRisk y, ra_riskScore = k,
                    ra_riskLabel = [], ra_recommendedArcPct = 0, ra_recommendedSuiPct = 0\<rparr>
      in if k \<ge> 65
         then scored\<lparr>ra_riskLabel := ''HIGH'', ra_recommendedArcPct := 70,
                     ra_recommendedSuiPct := 30\<rparr>
         else if k \<ge> 35
         then scored\<lparr>ra_riskLabel := ''MEDIUM'', ra_recommendedArcPct := 40,
                     ra_recommendedSuiPct := 60\<rparr>
         else scored\<lparr>ra_riskLabel := ''LOW'', ra_recommendedArcPct := 15,
                     ra_recommendedSuiPct := 85\<rparr>)"
    unfolding riskScoring_def k_def Let_def HIGH_RISK_THRESHOLD_def MEDIUM_RISK_THRESHOLD_def
    by (rule refl)
  consider "65 \<le> k" | "35 \<le> k" "k \<le> 64" | "k < 35" by linarith
  then show ?thesis
    by cases (simp_all add: r Let_def)
qed

lemmas scoring_defs =
  riskScoring_def priceRisk_def fundingRisk_def yieldRisk_def Let_def
  HIGH_RISK_THRESHOLD_def MEDIUM_RISK_THRESHOLD_def

lemmas assessment_defs =
  assessment_def priceChange24h_def avgFundingAnnualized_def bestYieldApy_def pushPrice_def
  findBestYield_def or_num_def navi_at_def initial_executor_def MAX_PRICE_HISTORY_def shift_def

lemma ten_percent_scoring:
  "riskScoring (- 10) 0 3 =
     \<lparr>ra_priceRisk = 50, ra_fundingRisk = 50, ra_yieldRisk = 40, ra_riskScore = 47,
      ra_riskLabel = ''MEDIUM'', ra_recommendedArcPct = 40, ra_recommendedSuiPct = 60\<rparr>"
  by (simp add: scoring_defs double_steps)

lemma tenth_down_change:
  "priceChange24h (ca_suiPrice tenth_down_env)
     (priceHistory (pushPrice (ca_now tenth_down_env) (ca_suiPrice tenth_down_env)
        tenth_down_state)) = - 10"
  by (simp add: assessment_defs tenth_down_env_def tenth_down_state_def double_steps)

lemma tenth_down_assessment:
  "assessment tenth_down_env tenth_down_state =
     \<lparr>ra_priceRisk = 50, ra_fundingRisk = 50, ra_yieldRisk = 40, ra_riskScore = 47,
      ra_riskLabel = ''MEDIUM'', ra_recommendedArcPct = 40, ra_recommendedSuiPct = 60\<rparr>"
  by (simp add: assessment_defs tenth_down_env_def tenth_down_state_def scoring_defs
        double_steps)

text \<open>
  Scenario A of the specification in the doubles of the program. The double nearest to
  1.80 is not nine tenths of 2, so the change computed from the history 2.00, 1.90, 1.80
  is \<open>-9.999999999999998\<close> and the price component \<open>49.99999999999999\<close>, one unit in the
  last place below 50. The score is 47 all the same, and the assessment MEDIUM with 40/60.
\<close>

lemma scenarioA_in_doubles:
  "priceChange24h (ca_suiPrice scenarioA_env)
     (priceHistory (pushPrice (ca_now scenarioA_env) (ca_suiPrice scenarioA_env)
        scenarioA_state)) = - (10 - 1 / 2 ^ 49)
   \<and> assessment scenarioA_env scenarioA_state =
       \<lparr>ra_priceRisk = 50 - 1 / 2 ^ 47, ra_fundingRisk = 50, ra_yieldRisk = 40,
        ra_riskScore = 47, ra_riskLabel = ''MEDIUM'', ra_recommendedArcPct = 40,
        ra_recommendedSuiPct = 60\<rparr>"
  by (simp add: assessment_defs scenarioA_env_def scenarioA_state_def scoring_defs
        double_steps)

text \<open>
  Where the rounding of doubles decides the band: after 1.00, SUI at 0.9925 with a best
  net yield of 2% gives a weighted sum of \<open>34.499999999999986\<close>, hence a score of 34 and
  LOW; the exact sum would be 34.5 and round to 35.
\<close>

lemma slight_drop_assessment:
  "ra_riskScore (assessment slight_drop_env slight_drop_state) = 34
   \<and> ra_riskLabel (assessment slight_drop_env slight_drop_state) = ''LOW''"
  by (simp add: assessment_defs slight_drop_env_def slight_drop_state_def scoring_defs
        double_steps)

lemma half_below_scoring: "ra_riskScore (riskScoring 0 1 (toDouble (215 / 100))) = 31"
  by (simp add: scoring_defs double_steps)

text \<open>
  Claim C4. In the double arithmetic of the program, the three risk components are the
  clamped expressions of the specification, the score is their weighted sum (0.4, 0.3,
  0.3) rounded to the nearest integer, and the score selects HIGH with 70/30 from 65 on,
  MEDIUM with 40/60 from 35 to 64, LOW with 15/85 below 35. A change of -10% gives a price
  component of 50 and, with an average funding of 0 and a best net yield of 3%, the score
  47 and MEDIUM with 40/60; so does the assessment as a whole when SUI stands at 9.00
  after 10.00.
\<close>

theorem risk_assessment_formula:
  "ra_priceRisk (riskScoring p f y) = clamp (fmul (max 0 (- p)) 5) 0 100
   \<and> ra_fundingRisk (riskScoring p f y) = clamp (fadd (fmul (- f) 2) 50) 0 100
   \<and> ra_yieldRisk (riskScoring p f y) = clamp (fmul (fsub 5 y) 20) 0 100
   \<and> ra_riskScore (riskScoring p f y) =
       Math_round (fadd (fadd (fmul (toDouble (4 / 10)) (ra_priceRisk (riskScoring p f y)))
                              (fmul (toDouble (3 / 10)) (ra_fundingRisk (riskScoring p f y))))
                        (fmul (toDouble (3 / 10)) (ra_yieldRisk (riskScoring p f y))))
   \<and> ((65 \<le> ra_riskScore (riskScoring p f y) \<and> ra_riskLabel (riskScoring p f y) = ''HIGH''
          \<and> ra_recommendedArcPct (riskScoring p f y) = 70
          \<and> ra_recommendedSuiPct (riskScoring p f y) = 30)
       \<or> (35 \<le> ra_riskScore (riskScoring p f y) \<and> ra_riskScore (riskScoring p f y) \<le> 64
          \<and> ra_riskLabel (riskScoring p f y) = ''MEDIUM''
          \<and> ra_recommendedArcPct (riskScoring p f y) = 40
          \<and> ra_recommendedSuiPct (riskScoring p f y) = 60)
       \<or> (ra_riskScore (riskScoring p f y) < 35 \<and> ra_riskLabel (riskScoring p f y) = ''LOW''
          \<and> ra_recommendedArcPct (riskScoring p f y) = 15
          \<and> ra_recommendedSuiPct (riskScoring p f y) = 85))
   \<and> riskScoring (- 10) 0 3 =
       \<lparr>ra_priceRisk = 50, ra_fundingRisk = 50, ra_yieldRisk = 40, ra_riskScore = 47,
        ra_riskLabel = ''MEDIUM'', ra_recommendedArcPct = 40, ra_recommendedSuiPct = 60\<rparr>
   \<and> priceChange24h (ca_suiPrice tenth_down_env)
        (priceHistory (pushPrice (ca_now tenth_down_env) (ca_suiPrice tenth_down_env)
           tenth_down_state)) = - 10
   \<and> assessment tenth_down_env tenth_down_state =
       \<lparr>ra_priceRisk = 50, ra_fundingRisk = 50, ra_yieldRisk = 40, ra_riskScore = 47,
        ra_riskLabel = ''MEDIUM'', ra_recommendedArcPct = 40, ra_recommendedSuiPct = 60\<rparr>"
proof -
  have score: "ra_riskScore (riskScoring p f y) =
       Math_round (fadd (fadd (fmul (toDouble (4 / 10)) (ra_priceRisk (riskScoring p f y)))
                              (fmul (toDouble (3 / 10)) (ra_fundingRisk (riskScoring p f y))))
                        (fmul (toDouble (3 / 10)) (ra_yieldRisk (riskScoring p f y))))"
    unfolding risk_fields
    by (simp only: fmul_commute [of "toDouble (4 / 10)"] fmul_commute [of "toDouble (3 / 10)"])
  show ?thesis
    using score risk_bands [of p f y] ten_percent_scoring tenth_down_change
      tenth_down_assessment
    by (simp only: risk_fields(1-3) risk_components simp_thms)
qed

section \<open>Input validation of the executor\<close>

text \<open>
  Claim C10, as stated, fails for the yield move: an amount of 0 is not rejected. The
  case \<open>moveToYield\<close> replaces it by its default of 100 and records a position of 100 SUI
  (200 USD at a SUI price of 2.00), where there was no position before.
\<close>

theorem zero_amount_yield_move_accepted:
  "map_option (currentPositions \<circ> snd)
     (executeFunction ''moveToYield''
        \<lparr>a_amount = Some 0, a_protocol = Some ''navi'', a_level = None, a_reason = None\<rparr>
        yield_move_env initial_executor)
   = Some [\<lparr>yp_protocol = ''NAVI'', yp_chain = ''Sui'', yp_asset = ''SUI'', yp_amount = 100,
            yp_amountUsd = 200, yp_apy = 10, yp_earnedUsd = 0, yp_depositedAt = 500000\<rparr>]
   \<and> currentPositions initial_executor = []"
  by code_simp

text \<open>
  Claim C10, as amended. An amount that is absent, zero or negative makes
  \<open>depositToVault\<close>, \<open>moveToArcVault\<close> and \<open>withdrawFromArcVault\<close> return their rejection
  message, and a non-empty risk level that is none of the three names makes
  \<open>setRiskLevel\<close> return its own. In each case the state returned is the state of entry
  plus the one log entry every call writes, whatever the surroundings of the call are: no
  outcome of a transaction builder, vault call or scan is consulted. That log entry leaves
  the treasury state, the positions, the decision ledger and the risk level as they were.
\<close>

theorem invalid_input_rejected:
  "((case a_amount args of None \<Rightarrow> True | Some a \<Rightarrow> a \<le> 0) \<longrightarrow>
      executeFunction ''depositToVault'' args env s
        = Some (''Please specify an amount to deposit.'', log Log_info s)
      \<and> executeFunction ''moveToArcVault'' args env s
        = Some (''Please specify an amount in USDC to deposit.'', log Log_info s)
      \<and> executeFunction ''withdrawFromArcVault'' args env s
        = Some (''Please specify an amount in USDC to withdraw.'', log Log_info s))
   \<and> ((case a_level args of None \<Rightarrow> False
        | Some l \<Rightarrow> l \<noteq> [] \<and> l \<notin> set [''conservative'', ''moderate'', ''aggressive'']) \<longrightarrow>
      executeFunction ''setRiskLevel'' args env s
        = Some (''Risk level must be: conservative, moderate, or aggressive.'', log Log_info s))
   \<and> treasuryState (log Log_info s) = treasuryState s
   \<and> currentPositions (log Log_info s) = currentPositions s
   \<and> treasuryDecisions (log Log_info s) = treasuryDecisions s
   \<and> riskLevel (log Log_info s) = riskLevel s"
  by (auto simp: executeFunction_def case_depositToVault_def case_moveToArcVault_def
        case_withdrawFromArcVault_def case_setRiskLevel_def or_num_def or_str_def
        riskLevelOf_def log_keeps Let_def split: option.splits)

theorem invalid_input_rejected_witness:
  "executeFunction ''depositToVault''
      \<lparr>a_amount = Some (- 5), a_protocol = None, a_level = Some ''reckless'', a_reason = None\<rparr>
      yield_move_env initial_executor
     = Some (''Please specify an amount to deposit.'', log Log_info initial_executor)
   \<and> executeFunction ''moveToArcVault''
      \<lparr>a_amount = Some (- 5), a_protocol = None, a_level = Some ''reckless'', a_reason = None\<rparr>
      yield_move_env initial_executor
     = Some (''Please specify an amount in USDC to deposit.'', log Log_info initial_executor)
   \<and> executeFunction ''withdrawFromArcVault''
      \<lparr>a_amount = Some (- 5), a_protocol = None, a_level = Some ''reckless'', a_reason = None\<rparr>
      yield_move_env initial_executor
     = Some (''Please specify an amount in USDC to withdraw.'', log Log_info initial_executor)
   \<and> executeFunction ''setRiskLevel''
      \<lparr>a_amount = Some (- 5), a_protocol = None, a_level = Some ''reckless'', a_reason = None\<rparr>
      yield_move_env initial_executor
     = Some (''Risk level must be: conservative, moderate, or aggressive.'',
             log Log_info initial_executor)"
  using invalid_input_rejected
    [of "\<lparr>a_amount = Some (- 5), a_protocol = None, a_level = Some ''reckless'', a_reason = None\<rparr>"
        yield_move_env initial_executor]
  by simp

section \<open>Signal fetches\<close>

lemma fetchPrices_never_throws:
  "\<exists>prices. fst (fetchPrices now fetched c) = Inr prices \<and> prices \<noteq> []"
  by (cases fetched) (auto simp: fetchPrices_def unavailablePrices_def Let_def)

lemma fetchPrices_on_failure:
  "\<not> (cachedPrices c \<noteq> [] \<and> now - lastPriceFetch c < PRICE_CACHE_TTL) \<Longrightarrow>
   fst (fetchPrices now (Inl err) c) =
     Inr (if cachedPrices c \<noteq> [] then cachedPrices c else unavailablePrices now)"
  by (simp add: fetchPrices_def)

lemma fetchNaviPoolData_never_throws:
  "\<exists>pools. fst (fetchNaviPoolData now fetched c) = Inr pools"
  by (cases fetched) (auto simp: fetchNaviPoolData_def)

lemma fetchMarketData_never_throws:
  "\<exists>markets. fst (fetchMarketData now fetched c) = Inr markets"
  by (cases fetched) (auto simp: fetchMarketData_def)

lemma fetchFundingRates_never_throws:
  "\<exists>rates. fst (fetchFundingRates now fetched c) = Inr rates"
  by (cases fetched)
     (auto simp: fetchFundingRates_def fetchMarketData_def Let_def split: prod.splits sum.splits)

text \<open>
  Claim C5, evaluated where the pool list cannot be fetched. The cache holds a pool list
  fetched at time 100000; at time 200000 it has expired and the request fails with status
  500. \<open>fetchDefiLlamaPools\<close> throws instead of returning the list it still holds, and
  \<open>scanYields\<close> passes the exception on, whatever the other two sources delivered.
\<close>

theorem pool_list_failure_propagates:
  "cachedPools stale_llama_cache \<noteq> []
   \<and> fetchDefiLlamaPools 200000 (Inl ''DeFi Llama API error: 500'') stale_llama_cache
       = (Inl ''DeFi Llama API error: 500'', stale_llama_cache)
   \<and> scanYields 200000
        (fst (fetchDefiLlamaPools 200000 (Inl ''DeFi Llama API error: 500'') stale_llama_cache))
        [] (Inr [])
       = Inl ''DeFi Llama API error: 500''"
  by (simp add: fetchDefiLlamaPools_def stale_llama_cache_def CACHE_TTL_def scanYields_def)

section \<open>Offline intent queue\<close>











section \<open>Yield scan\<close>

lemma poolToOpportunity_inv:
  assumes "pool \<in> set (filterRelevantPools pools)"
  shows "opp_inv (poolToOpportunity now pool)"
proof -
  from assms have "list_ex (\<lambda>p. lp_project pool = ypr_project p \<and> lp_chain pool = ypr_chain p
                                \<and> lp_apy pool > 0 \<and> lp_tvlUsd pool > 100000) YIELD_PROTOCOLS"
    by (simp add: filterRelevantPools_def)
  then consider
      "lp_project pool = ''scallop-lend''" "lp_chain pool = ''Sui''"
    | "lp_project pool = ''navi-lending''" "lp_chain pool = ''Sui''"
    | "lp_project pool = ''aave-v3''" "lp_chain pool = ''Arbitrum''"
    | "lp_project pool = ''compound-v3''" "lp_chain pool = ''Optimism''"
    by (auto simp: YIELD_PROTOCOLS_def)
  then show ?thesis
    by cases
      (simp_all add: opp_inv_def poolToOpportunity_def YIELD_PROTOCOLS_def or_str_def Let_def)
qed

lemma update_first_all:
  "list_all Q xs \<Longrightarrow> (\<And>x. P x \<Longrightarrow> Q x \<Longrightarrow> Q (f x)) \<Longrightarrow> list_all Q (update_first P f xs)"
  by (induction xs) auto

lemma naviOverlayStep_inv:
  "list_all opp_inv opps \<Longrightarrow> list_all opp_inv (naviOverlayStep now opps np)"
  unfolding naviOverlayStep_def Let_def
  by (auto simp: opp_inv_def split: option.splits intro!: update_first_all)

lemma naviOverlay_inv:
  "list_all opp_inv opps \<Longrightarrow> list_all opp_inv (foldl (naviOverlayStep now) opps nps)"
  by (induction nps arbitrary: opps) (simp_all add: naviOverlayStep_inv)

lemma bluefinOpportunity_inv: "opp_inv (bluefinOpportunity now bf)"
  by (simp add: opp_inv_def bluefinOpportunity_def)

lemma scanYields_inv:
  assumes "scanYields now llama navi bf = Inr opps"
  shows "list_all opp_inv opps"
proof -
  from assms obtain llamaPools where l: "llama = Inr llamaPools"
    by (cases llama) (simp_all add: scanYields_def)
  let ?bys = "case bf of Inl _ \<Rightarrow> [] | Inr ys \<Rightarrow> ys"
  let ?base = "map (poolToOpportunity now) (filterRelevantPools llamaPools)"
  let ?all = "foldl (naviOverlayStep now) ?base navi @ map (bluefinOpportunity now) ?bys"
  have opps: "opps = sort_key (\<lambda>opp. - yo_netApy opp) ?all"
    using assms l by (simp add: scanYields_def Let_def)
  have "list_all opp_inv ?base"
    by (simp add: list_all_iff poolToOpportunity_inv)
  then have "list_all opp_inv (foldl (naviOverlayStep now) ?base navi)"
    by (rule naviOverlay_inv)
  then have "list_all opp_inv ?all"
    by (auto simp: list_all_iff bluefinOpportunity_inv)
  then show ?thesis
    unfolding opps by (simp add: list_all_iff)
qed

lemma example_scan:
  "scanYields 1000 (Inr example_llama) example_navi (Inr example_funding) = Inr example_scanned"
  by code_simp

text \<open>
  Claim C9. Every opportunity a yield scan returns has a net APY equal to its APY minus
  its bridge cost, and every native one has a bridge cost of 0; this covers the pools
  taken from the pool list, those overwritten or added from the NAVI feed, and those
  derived from funding rates.
\<close>

theorem scan_invariant:
  assumes "scanYields now llama navi bf = Inr opps" and "opp \<in> set opps"
  shows "yo_netApy opp = yo_apy opp - yo_bridgeCostPct opp
         \<and> (yo_isNative opp \<longrightarrow> yo_bridgeCostPct opp = 0)"
  using scanYields_inv [OF assms(1)] assms(2)
  by (auto simp: list_all_iff opp_inv_def split: if_splits)

theorem scan_invariant_witness:
  "scanYields 1000 (Inr example_llama) example_navi (Inr example_funding) = Inr example_scanned
   \<and> example_scanned ! 1 \<in> set example_scanned
   \<and> yo_netApy (example_scanned ! 1)
       = yo_apy (example_scanned ! 1) - yo_bridgeCostPct (example_scanned ! 1)
   \<and> yo_bridgeCostPct (example_scanned ! 1) = 3 / 10
   \<and> example_scanned ! 2 \<in> set example_scanned
   \<and> yo_isNative (example_scanned ! 2)
   \<and> yo_bridgeCostPct (example_scanned ! 2) = 0"
proof -
  have m1: "example_scanned ! 1 \<in> set example_scanned"
    and m2: "example_scanned ! 2 \<in> set example_scanned"
    by (simp_all add: example_scanned_def)
  have n2: "yo_isNative (example_scanned ! 2)"
    and b1: "yo_bridgeCostPct (example_scanned ! 1) = 3 / 10"
    by (simp_all add: example_scanned_def)
  from scan_invariant [OF example_scan m1] scan_invariant [OF example_scan m2]
    example_scan m1 m2 n2 b1
  show ?thesis by simp
qed

end
